theory Spec2Isabelle
  imports Main "HOL-Library.Char_ord" "HOL-Library.List_Lexorder"
    "HOL-Library.Product_Lexorder" "HOL-Library.Word"
begin

section \<open>Python values and strings\<close>

text \<open>
  A Python \<open>str\<close> is modelled as a \<open>string\<close>, one character per code point, so the
  model covers the strings over code points below 256; on these, the order of
  \<open>HOL-Library.Char_ord\<close> and \<open>HOL-Library.List_Lexorder\<close> is Python's comparison of
  strings (code point by code point), and \<open>HOL-Library.Product_Lexorder\<close> is Python's
  comparison of tuples.

  \<open>pyval\<close> is what \<open>response.json()\<close> and \<open>BaseModel.dict()\<close> hand to the code: None,
  bool, int, str, list and dict (floats are left out: no path modelled here reads one).
  A dict is the list of its items in insertion order.
\<close>

datatype pyval =
    PNone
  | PBool bool
  | PInt int
  | PStr string
  | PList "pyval list"
  | PDict "(string \<times> pyval) list"

text \<open>The values of a signing parameter set: \<open>Dict[str, Any]\<close> in the source, str or
  None at every call site; int and bool are covered as well.\<close>

datatype scalar = SNone | SBool bool | SInt int | SStr string

text \<open>\<open>d.get(k)\<close> and \<open>d.get(k, default)\<close>\<close>

definition dict_get :: "(string \<times> pyval) list \<Rightarrow> string \<Rightarrow> pyval" where
  "dict_get d k = (case map_of d k of None \<Rightarrow> PNone | Some v \<Rightarrow> v)"

definition dict_get_default :: "(string \<times> pyval) list \<Rightarrow> string \<Rightarrow> pyval \<Rightarrow> pyval" where
  "dict_get_default d k dflt = (case map_of d k of None \<Rightarrow> dflt | Some v \<Rightarrow> v)"

text \<open>Truth value testing (\<open>if v:\<close>)\<close>

fun truthy :: "pyval \<Rightarrow> bool" where
  "truthy PNone = False"
| "truthy (PBool b) = b"
| "truthy (PInt i) = (i \<noteq> 0)"
| "truthy (PStr s) = (s \<noteq> [])"
| "truthy (PList xs) = (xs \<noteq> [])"
| "truthy (PDict d) = (d \<noteq> [])"

text \<open>\<open>str(n)\<close> for an int\<close>

definition digit :: "nat \<Rightarrow> char" where
  "digit n = char_of (48 + n)"

function str_nat :: "nat \<Rightarrow> string" where
  "str_nat n = (if n < 10 then [digit n] else str_nat (n div 10) @ [digit (n mod 10)])"
  by pat_completeness auto
termination
  by (relation "measure (\<lambda>n. n)") auto

declare str_nat.simps [simp del]

definition str_int :: "int \<Rightarrow> string" where
  "str_int i = (if i < 0 then CHR ''-'' # str_nat (nat (- i)) else str_nat (nat i))"

fun py_str :: "scalar \<Rightarrow> string" where
  "py_str SNone = ''None''"
| "py_str (SBool b) = (if b then ''True'' else ''False'')"
| "py_str (SInt i) = str_int i"
| "py_str (SStr s) = s"

text \<open>\<open>str.isspace\<close> on one character below 256, and \<open>str.strip()\<close>\<close>

definition isspace :: "char \<Rightarrow> bool" where
  "isspace c = ((of_char c :: nat) \<in> {9, 10, 11, 12, 13, 28, 29, 30, 31, 32, 133, 160})"

definition strip :: "string \<Rightarrow> string" where
  "strip s = rev (dropWhile isspace (rev (dropWhile isspace s)))"

text \<open>\<open>sep.join(xs)\<close>\<close>

fun join :: "string \<Rightarrow> string list \<Rightarrow> string" where
  "join sep [] = []"
| "join sep [x] = x"
| "join sep (x # y # ys) = x @ sep @ join sep (y # ys)"

text \<open>\<open>s.startswith(p)\<close>\<close>

definition startswith :: "string \<Rightarrow> string \<Rightarrow> bool" where
  "startswith s p = (take (length p) s = p)"

text \<open>\<open>str.upper()\<close> on ASCII, which is all the code applies it to (hexadecimal digits)\<close>

definition upper_char :: "char \<Rightarrow> char" where
  "upper_char c =
     (let n = (of_char c :: nat) in if 97 \<le> n \<and> n \<le> 122 then char_of (n - 32) else c)"

definition upper :: "string \<Rightarrow> string" where
  "upper s = map upper_char s"

section \<open>Dates and random tokens\<close>

text \<open>A \<open>datetime\<close> value. Python only builds valid ones (\<open>valid_datetime\<close>).\<close>

record datetime =
  year :: nat
  month :: nat
  day :: nat
  hour :: nat
  minute :: nat
  second :: nat
  microsecond :: nat

definition valid_datetime :: "datetime \<Rightarrow> bool" where
  "valid_datetime t =
     (1 \<le> year t \<and> year t \<le> 9999 \<and> 1 \<le> month t \<and> month t \<le> 12 \<and> 1 \<le> day t \<and> day t \<le> 31
      \<and> hour t \<le> 23 \<and> minute t \<le> 59 \<and> second t \<le> 59 \<and> microsecond t \<le> 999999)"

text \<open>The order of \<open>datetime\<close> values: earlier or equal.\<close>

definition datetime_tuple :: "datetime \<Rightarrow> nat \<times> nat \<times> nat \<times> nat \<times> nat \<times> nat" where
  "datetime_tuple t = (year t, month t, day t, hour t, minute t, second t)"

text \<open>\<open>t.strftime("%Y%m%d%H%M%S")\<close>: \<open>%Y\<close> is the year in decimal, not padded (the year
  987 gives \<open>987\<close>); the other fields are padded with zeros to two digits.
  \<open>four_digits\<close> is what \<open>%Y\<close> gives from the year 1000 on.\<close>

definition two_digits :: "nat \<Rightarrow> string" where
  "two_digits n = [digit (n div 10 mod 10), digit (n mod 10)]"

definition four_digits :: "nat \<Rightarrow> string" where
  "four_digits n = two_digits (n div 100) @ two_digits (n mod 100)"

definition strftime :: "datetime \<Rightarrow> string" where
  "strftime t =
     str_nat (year t) @ two_digits (month t) @ two_digits (day t)
     @ two_digits (hour t) @ two_digits (minute t) @ two_digits (second t)"

text \<open>
  \<^verbatim>\<open>
  def token_bytes(nbytes):
      return _sysrand.randbytes(nbytes)
  def token_hex(nbytes):
      return binascii.hexlify(token_bytes(nbytes)).decode('ascii')
  \<close>
  \<open>rnd\<close> is the system's random source as one call sees it: \<open>rnd i\<close> is the byte it
  delivers at position \<open>i\<close>, and a call for \<open>n\<close> bytes takes the first \<open>n\<close>. \<open>hexlify\<close>
  writes each byte as two hexadecimal digits, \<open>0\<close> to \<open>9\<close> (codes from 48), then \<open>a\<close> to
  \<open>f\<close> (codes from 97).
\<close>

definition hexdigit :: "nat \<Rightarrow> char" where
  "hexdigit n = (if n < 10 then char_of (48 + n) else char_of (87 + n))"

definition hex_byte :: "8 word \<Rightarrow> string" where
  "hex_byte b = [hexdigit (unat b div 16), hexdigit (unat b mod 16)]"

definition hexlify :: "8 word list \<Rightarrow> string" where
  "hexlify bs = concat (map hex_byte bs)"

definition token_bytes :: "nat \<Rightarrow> (nat \<Rightarrow> 8 word) \<Rightarrow> 8 word list" where
  "token_bytes n rnd = map rnd [0..<n]"

definition token_hex :: "nat \<Rightarrow> (nat \<Rightarrow> 8 word) \<Rightarrow> string" where
  "token_hex n rnd = hexlify (token_bytes n rnd)"

section \<open>crud.py: order identifiers\<close>

text \<open>
  \<^verbatim>\<open>
  def generate_merch_order_id() -> str:
      timestamp = datetime.now().strftime("%Y%m%d%H%M%S")
      random_part = secrets.token_hex(4).upper()
      return f"ORD{timestamp}{random_part}"
  \<close>
  \<open>now\<close> is what \<open>datetime.now()\<close> returns and \<open>rnd\<close> the random source of the call.
\<close>

definition generate_merch_order_id :: "datetime \<Rightarrow> (nat \<Rightarrow> 8 word) \<Rightarrow> string" where
  "generate_merch_order_id now rnd = ''ORD'' @ strftime now @ upper (token_hex 4 rnd)"

text \<open>The characters \<open>0\<close> to \<open>9\<close>, and those together with \<open>A\<close> to \<open>F\<close>.\<close>

definition is_digit :: "char \<Rightarrow> bool" where
  "is_digit c = (48 \<le> (of_char c :: nat) \<and> (of_char c :: nat) \<le> 57)"

definition is_upper_hex :: "char \<Rightarrow> bool" where
  "is_upper_hex c = (is_digit c \<or> (65 \<le> (of_char c :: nat) \<and> (of_char c :: nat) \<le> 70))"

section \<open>Exceptions and library functions\<close>

text \<open>Every \<open>raise\<close> of the modelled code, and every exception its library calls raise,
  is a value of \<open>exn\<close>; a function that can raise returns \<open>exn + 'a\<close>.\<close>

datatype exn =
    HTTPException nat pyval
  | PyException string
  | KeyError string
  | TypeError
  | AttributeError
  | ValueError
  | JSONDecodeError
  | IntegrityError
  | RequestException

text \<open>
  The library functions the code calls and this development does not define:
  \<^item> \<open>json_dumps v\<close> is \<open>json.dumps(v)\<close>;
  \<^item> \<open>strptime s fmt\<close> is \<open>datetime.strptime(s, fmt)\<close>, \<open>None\<close> when it raises ValueError;
  \<^item> \<open>exn_str e\<close> is \<open>str(e)\<close> for an exception \<open>e\<close>;
  \<^item> \<open>pss_sign pem salt msg\<close> is \<open>load_pem_private_key(pem).sign(msg, PSS(MGF1(SHA256),
    32), SHA256)\<close> with the salt it draws made an argument; it raises when the key does
    not load;
  \<^item> \<open>b64encode\<close> is \<open>base64.b64encode(...).decode('utf-8')\<close>.
  Every theorem below holds for every such \<open>lib\<close>.
\<close>

record lib =
  json_dumps :: "pyval \<Rightarrow> string"
  strptime :: "string \<Rightarrow> string \<Rightarrow> datetime option"
  exn_str :: "exn \<Rightarrow> string"
  pss_sign :: "string \<Rightarrow> string \<Rightarrow> string \<Rightarrow> exn + string"
  b64encode :: "string \<Rightarrow> string"

section \<open>models.py and schemas.py\<close>

datatype OrderStatus = PENDING | PROCESSING | PAYING | COMPLETED | FAILED | EXPIRED

record Merchant =
  id' :: int
  name :: string
  email :: string
  dmoney_app_key :: string
  dmoney_app_secret :: string
  dmoney_app_id :: string
  dmoney_merch_code :: string
  dmoney_private_key :: string
  dmoney_public_key :: "string option"
  notify_url :: string
  redirect_url :: string
  cached_token :: "string option"
  token_expires_at :: "datetime option"
  is_active :: bool
  created_at :: datetime
  updated_at :: datetime

record PreorderRequest =
  merchant_id :: int
  product_name :: string
  quantity :: int
  total_amount :: "64 word"
  currency :: string
  customer_name :: string
  customer_email :: string
  customer_phone :: "string option"
  timeout_express :: "string option"

record NotifyRequest =
  appid :: string
  merch_code :: string
  merch_order_id :: string
  notify_time :: string
  notify_url :: string
  payment_order_id :: string
  total_amount :: string
  trans_currency :: string
  trade_status :: string
  trans_end_time :: string
  callback_info :: "string option"
  sign :: string
  sign_type :: string

record NotifyResponse =
  success :: bool
  message :: string

text \<open>A row of the \<open>orders\<close> table. \<open>total_amount\<close> is a Float column: the double is
  carried as its 64 bits, no modelled path computes with it. \<open>payment_order_id\<close> holds
  the Python value the code assigns to the attribute.\<close>

record Order =
  id' :: int
  merchant_id :: int
  merch_order_id :: string
  product_name :: string
  quantity :: int
  total_amount :: "64 word"
  currency :: string
  status :: OrderStatus
  prepay_id :: "string option"
  payment_order_id :: pyval
  checkout_url :: "string option"
  customer_name :: string
  customer_email :: string
  customer_phone :: "string option"
  created_at :: datetime
  updated_at :: datetime
  trans_end_time :: "datetime option"
  callback_info :: "string option"
  gateway_response :: "string option"

text \<open>\<open>notify_data.dict()\<close>: the fields in declaration order.\<close>

definition opt_str :: "string option \<Rightarrow> pyval" where
  "opt_str v = (case v of None \<Rightarrow> PNone | Some s \<Rightarrow> PStr s)"

definition NotifyRequest_dict :: "NotifyRequest \<Rightarrow> (string \<times> pyval) list" where
  "NotifyRequest_dict n =
     [(''appid'', PStr (NotifyRequest.appid n)),
      (''merch_code'', PStr (NotifyRequest.merch_code n)),
      (''merch_order_id'', PStr (NotifyRequest.merch_order_id n)),
      (''notify_time'', PStr (NotifyRequest.notify_time n)),
      (''notify_url'', PStr (NotifyRequest.notify_url n)),
      (''payment_order_id'', PStr (NotifyRequest.payment_order_id n)),
      (''total_amount'', PStr (NotifyRequest.total_amount n)),
      (''trans_currency'', PStr (NotifyRequest.trans_currency n)),
      (''trade_status'', PStr (NotifyRequest.trade_status n)),
      (''trans_end_time'', PStr (NotifyRequest.trans_end_time n)),
      (''callback_info'', opt_str (NotifyRequest.callback_info n)),
      (''sign'', PStr (NotifyRequest.sign n)),
      (''sign_type'', PStr (NotifyRequest.sign_type n))]"

section \<open>crud.py: orders\<close>

text \<open>
  The \<open>orders\<close> table is the list of its rows. A query's \<open>.first()\<close> is the first row
  that satisfies the filter; the object it returns is that row, so assigning to its
  attributes and committing rewrites the row in place (\<open>rewrite_first\<close>). A commit is
  taken to succeed, except for the unique index on \<open>merch_order_id\<close> at insertion.
\<close>

fun rewrite_first :: "('a \<Rightarrow> bool) \<Rightarrow> 'a \<Rightarrow> 'a list \<Rightarrow> 'a list" where
  "rewrite_first P y [] = []"
| "rewrite_first P y (x # xs) = (if P x then y # xs else x # rewrite_first P y xs)"

text \<open>
  \<^verbatim>\<open>
  def get_order_by_merch_id(db, merch_order_id):
      return db.query(Order).filter(Order.merch_order_id == merch_order_id).first()
  \<close>
  The argument is a Python value: a row matches when the value is the str stored in
  the row.
\<close>

definition has_merch_order_id :: "pyval \<Rightarrow> Order \<Rightarrow> bool" where
  "has_merch_order_id v row = (v = PStr (merch_order_id row))"

definition get_order_by_merch_id :: "Order list \<Rightarrow> pyval \<Rightarrow> Order option" where
  "get_order_by_merch_id db v = find (has_merch_order_id v) db"

text \<open>
  \<^verbatim>\<open>
  def create_order(db, order_data):
      merch_order_id = generate_merch_order_id()
      order = Order(merchant_id=order_data["merchant_id"], merch_order_id=merch_order_id,
                    ..., status=OrderStatus.PENDING)
      db.add(order); db.commit(); db.refresh(order)
      return order
  \<close>
  \<open>order_data\<close> is \<open>PreorderRequest.dict()\<close>. \<open>now\<close> is \<open>datetime.now()\<close> and \<open>rnd\<close> the random
  source of \<open>generate_merch_order_id\<close>, \<open>utcnow\<close> is
  \<open>datetime.utcnow()\<close> (the column default of \<open>created_at\<close> and \<open>updated_at\<close>); the
  primary key is the next integer.
\<close>

definition next_id :: "Order list \<Rightarrow> int" where
  "next_id db = fold max (map id' db) 0 + 1"

definition create_order ::
  "datetime \<Rightarrow> (nat \<Rightarrow> 8 word) \<Rightarrow> datetime \<Rightarrow> Order list \<Rightarrow> PreorderRequest
    \<Rightarrow> exn + Order list \<times> Order"
where
  "create_order now rnd utcnow db order_data =
     (let new_id = generate_merch_order_id now rnd;
          order = \<lparr>id' = next_id db,
                   merchant_id = PreorderRequest.merchant_id order_data,
                   merch_order_id = new_id,
                   product_name = PreorderRequest.product_name order_data,
                   quantity = PreorderRequest.quantity order_data,
                   total_amount = PreorderRequest.total_amount order_data,
                   currency = PreorderRequest.currency order_data,
                   status = PENDING,
                   prepay_id = None,
                   payment_order_id = PNone,
                   checkout_url = None,
                   customer_name = PreorderRequest.customer_name order_data,
                   customer_email = PreorderRequest.customer_email order_data,
                   customer_phone = PreorderRequest.customer_phone order_data,
                   created_at = utcnow,
                   updated_at = utcnow,
                   trans_end_time = None,
                   callback_info = None,
                   gateway_response = None\<rparr>
      in if new_id \<in> set (map merch_order_id db) then Inl IntegrityError
         else Inr (db @ [order], order))"

text \<open>
  \<^verbatim>\<open>
  def update_order_with_payment(db, merch_order_id, prepay_id, checkout_url,
                                gateway_response):
      order = get_order_by_merch_id(db, merch_order_id)
      if order:
          order.prepay_id = prepay_id
          order.checkout_url = checkout_url
          order.gateway_response = json.dumps(gateway_response)
          order.status = OrderStatus.PROCESSING
          order.updated_at = datetime.utcnow()
          db.commit(); db.refresh(order)
      return order
  \<close>
  The arguments \<open>mid\<close>, \<open>pid\<close>, \<open>url\<close> and \<open>resp\<close> are the source's \<open>merch_order_id\<close>,
  \<open>prepay_id\<close>, \<open>checkout_url\<close> and \<open>gateway_response\<close>.
\<close>

definition update_order_with_payment ::
  "lib \<Rightarrow> datetime \<Rightarrow> Order list \<Rightarrow> string \<Rightarrow> string \<Rightarrow> string \<Rightarrow> pyval
    \<Rightarrow> Order list \<times> Order option"
where
  "update_order_with_payment L utcnow db mid pid url resp =
     (case get_order_by_merch_id db (PStr mid) of
        None \<Rightarrow> (db, None)
      | Some order \<Rightarrow>
          (let order = order\<lparr>prepay_id := Some pid,
                               checkout_url := Some url,
                               gateway_response := Some (json_dumps L resp),
                               status := PROCESSING,
                               updated_at := utcnow\<rparr>
           in (rewrite_first (has_merch_order_id (PStr mid)) order db, Some order)))"

text \<open>
  The table of both reconciliation paths, and \<open>status_mapping.get(key)\<close>: a list or
  a dict is not hashable and raises TypeError; any other key that is not one of the
  four strings is absent.
  \<^verbatim>\<open>
  status_mapping = {
      "Paying": OrderStatus.PAYING,
      "Completed": OrderStatus.COMPLETED,
      "Failure": OrderStatus.FAILED,
      "Expired": OrderStatus.EXPIRED
  }
  \<close>
\<close>

definition status_mapping :: "(string \<times> OrderStatus) list" where
  "status_mapping =
     [(''Paying'', PAYING), (''Completed'', COMPLETED), (''Failure'', FAILED),
      (''Expired'', EXPIRED)]"

fun status_mapping_get :: "pyval \<Rightarrow> exn + OrderStatus option" where
  "status_mapping_get (PStr s) = Inr (map_of status_mapping s)"
| "status_mapping_get (PList xs) = Inl TypeError"
| "status_mapping_get (PDict d) = Inl TypeError"
| "status_mapping_get v = Inr None"

text \<open>
  \<^verbatim>\<open>
  def update_order_status_from_notify(db, notify_data):
      order = get_order_by_merch_id(db, notify_data["merch_order_id"])
      if not order:
          return None
      status_mapping = {...}
      trade_status = notify_data.get("trade_status")
      order.status = status_mapping.get(trade_status, OrderStatus.PROCESSING)
      order.payment_order_id = notify_data.get("payment_order_id")
      order.callback_info = json.dumps(notify_data)
      if notify_data.get("trans_end_time"):
          try:
              order.trans_end_time = datetime.strptime(
                  notify_data["trans_end_time"], "%Y%m%d%H%M%S")
          except:
              pass
      order.updated_at = datetime.utcnow()
      db.commit(); db.refresh(order)
      return order
  \<close>
  The bare \<open>except\<close> catches the ValueError of a text that does not parse and the
  TypeError of a value that is not a str.
\<close>

definition parse_trans_end_time :: "lib \<Rightarrow> pyval \<Rightarrow> datetime option" where
  "parse_trans_end_time L v =
     (if truthy v then
        (case v of PStr s \<Rightarrow> strptime L s ''%Y%m%d%H%M%S'' | _ \<Rightarrow> None)
      else None)"

text \<open>The assignments to the row found (lines 105 to 126).\<close>

definition assign_from_notify ::
  "lib \<Rightarrow> datetime \<Rightarrow> (string \<times> pyval) list \<Rightarrow> Order \<Rightarrow> exn + Order"
where
  "assign_from_notify L utcnow notify_data order =
     (case status_mapping_get (dict_get notify_data ''trade_status'') of
        Inl e \<Rightarrow> Inl e
      | Inr found \<Rightarrow>
          (let order = order\<lparr>status := (case found of None \<Rightarrow> PROCESSING | Some st \<Rightarrow> st),
                               payment_order_id := dict_get notify_data ''payment_order_id'',
                               callback_info := Some (json_dumps L (PDict notify_data))\<rparr>;
               order = (case parse_trans_end_time L (dict_get notify_data ''trans_end_time'') of
                          None \<Rightarrow> order
                        | Some t \<Rightarrow> order\<lparr>trans_end_time := Some t\<rparr>)
           in Inr (order\<lparr>updated_at := utcnow\<rparr>)))"

definition update_order_status_from_notify ::
  "lib \<Rightarrow> datetime \<Rightarrow> Order list \<Rightarrow> (string \<times> pyval) list \<Rightarrow> exn + Order list \<times> Order option"
where
  "update_order_status_from_notify L utcnow db notify_data =
     (case map_of notify_data ''merch_order_id'' of
        None \<Rightarrow> Inl (KeyError ''merch_order_id'')
      | Some v \<Rightarrow>
          (case get_order_by_merch_id db v of
             None \<Rightarrow> Inr (db, None)
           | Some order \<Rightarrow>
               (case assign_from_notify L utcnow notify_data order of
                  Inl e \<Rightarrow> Inl e
                | Inr order \<Rightarrow> Inr (rewrite_first (has_merch_order_id v) order db, Some order))))"

section \<open>main.py: the webhook and the status query\<close>

text \<open>
  Both handlers run their body under
  \<^verbatim>\<open>
      except Exception as e:
          raise HTTPException(status_code=500, detail=str(e))
  \<close>
  and \<open>HTTPException\<close> is itself an \<open>Exception\<close>, so the clause also catches the
  \<open>HTTPException\<close>s the body raises. A handler returns its outcome and the table.
\<close>

definition except_Exception :: "lib \<Rightarrow> (exn + 'a) \<times> 's \<Rightarrow> (exn + 'a) \<times> 's" where
  "except_Exception L r =
     (case r of
        (Inl e, s) \<Rightarrow> (Inl (HTTPException 500 (PStr (exn_str L e))), s)
      | (Inr x, s) \<Rightarrow> (Inr x, s))"

text \<open>
  \<^verbatim>\<open>
  async def payment_notify(notify_data: schemas.NotifyRequest, db = Depends(get_db)):
      try:
          order = crud.update_order_status_from_notify(db, notify_data.dict())
          if not order:
              raise HTTPException(status_code=404, detail="Order not found")
          return schemas.NotifyResponse(
              success=True,
              message=f"Payment notification processed. Status: {notify_data.trade_status}")
      except Exception as e:
          raise HTTPException(status_code=500, detail=str(e))
  \<close>
\<close>

definition payment_notify ::
  "lib \<Rightarrow> datetime \<Rightarrow> Order list \<Rightarrow> NotifyRequest \<Rightarrow> (exn + NotifyResponse) \<times> Order list"
where
  "payment_notify L utcnow db notify_data =
     except_Exception L
       (case update_order_status_from_notify L utcnow db (NotifyRequest_dict notify_data) of
          Inl e \<Rightarrow> (Inl e, db)
        | Inr (db', None) \<Rightarrow> (Inl (HTTPException 404 (PStr ''Order not found'')), db')
        | Inr (db', Some order) \<Rightarrow>
            (Inr \<lparr>success = True,
                  message = ''Payment notification processed. Status: ''
                    @ NotifyRequest.trade_status notify_data\<rparr>, db'))"

text \<open>
  The reconciliation of \<open>query_order\<close> (main.py, lines 229 to 250), on the value
  \<open>query_response\<close> that \<open>dmoney.query_order\<close> returned for \<open>mid\<close>, the request's
  \<open>merch_order_id\<close>:
  \<^verbatim>\<open>
      if query_response.get("code") != "0" or query_response.get("result") != "SUCCESS":
          raise HTTPException(status_code=400,
                              detail=query_response.get("msg", "Query order failed"))
      biz_content = query_response.get("biz_content", {})
      local_order = crud.get_order_by_merch_id(db, query_data.merch_order_id)
      if local_order and biz_content.get("order_status"):
          status_mapping = {...}
          new_status = status_mapping.get(biz_content.get("order_status"))
          if new_status:
              local_order.status = new_status
              local_order.payment_order_id = biz_content.get("payment_order_id")
              local_order.updated_at = datetime.utcnow()
              db.commit()
  \<close>
  A value without \<open>.get\<close> (anything but a dict) raises AttributeError where the code
  calls it; \<open>and\<close> does not evaluate its right side when there is no local order.
\<close>

definition apply_query_result :: "datetime \<Rightarrow> Order list \<Rightarrow> string \<Rightarrow> pyval \<Rightarrow> exn + Order list" where
  "apply_query_result utcnow db mid query_response =
     (case query_response of
        PDict r \<Rightarrow>
          if dict_get r ''code'' \<noteq> PStr ''0'' \<or> dict_get r ''result'' \<noteq> PStr ''SUCCESS''
          then Inl (HTTPException 400 (dict_get_default r ''msg'' (PStr ''Query order failed'')))
          else
            (let biz_content = dict_get_default r ''biz_content'' (PDict [])
             in case get_order_by_merch_id db (PStr mid) of
                  None \<Rightarrow> Inr db
                | Some local_order \<Rightarrow>
                    (case biz_content of
                       PDict b \<Rightarrow>
                         if truthy (dict_get b ''order_status'') then
                           (case status_mapping_get (dict_get b ''order_status'') of
                              Inl e \<Rightarrow> Inl e
                            | Inr None \<Rightarrow> Inr db
                            | Inr (Some new_status) \<Rightarrow>
                                Inr (rewrite_first (has_merch_order_id (PStr mid))
                                       (local_order\<lparr>status := new_status,
                                          payment_order_id := dict_get b ''payment_order_id'',
                                          updated_at := utcnow\<rparr>) db))
                         else Inr db
                     | _ \<Rightarrow> Inl AttributeError))
      | _ \<Rightarrow> Inl AttributeError)"

text \<open>The handler from line 229 on, under its \<open>except Exception\<close>. \<open>Inr ()\<close> is reaching
  line 252: building the response object from \<open>biz_content\<close> reads no table and writes
  none, and is not part of the model.\<close>

definition query_order ::
  "lib \<Rightarrow> datetime \<Rightarrow> Order list \<Rightarrow> string \<Rightarrow> pyval \<Rightarrow> (exn + unit) \<times> Order list"
where
  "query_order L utcnow db mid query_response =
     except_Exception L
       (case apply_query_result utcnow db mid query_response of
          Inl e \<Rightarrow> (Inl e, db)
        | Inr db' \<Rightarrow> (Inr (), db'))"

text \<open>A history of reconciliation calls on one table. A call that raises leaves the
  table as it was.\<close>

datatype event =
    Notification datetime "(string \<times> pyval) list"
  | QueryResult datetime string pyval

definition apply_event :: "lib \<Rightarrow> Order list \<Rightarrow> event \<Rightarrow> Order list" where
  "apply_event L db ev =
     (case ev of
        Notification utcnow notify_data \<Rightarrow>
          (case update_order_status_from_notify L utcnow db notify_data of
             Inl e \<Rightarrow> db
           | Inr (db', order) \<Rightarrow> db')
      | QueryResult utcnow mid query_response \<Rightarrow>
          (case apply_query_result utcnow db mid query_response of
             Inl e \<Rightarrow> db
           | Inr db' \<Rightarrow> db'))"

definition run_events :: "lib \<Rightarrow> Order list \<Rightarrow> event list \<Rightarrow> Order list" where
  "run_events L db evs = foldl (apply_event L) db evs"

definition is_terminal :: "OrderStatus \<Rightarrow> bool" where
  "is_terminal st = (st = PAYING \<or> st = COMPLETED \<or> st = FAILED \<or> st = EXPIRED)"

text \<open>The four states a reconciliation can report, the four \<open>trade_status\<close> or
  \<open>order_status\<close> values of \<open>status_mapping\<close>, and the histories whose notifications
  all carry one of them.\<close>

definition recognized :: "pyval \<Rightarrow> bool" where
  "recognized v =
     (v = PStr ''Paying'' \<or> v = PStr ''Completed'' \<or> v = PStr ''Failure'' \<or> v = PStr ''Expired'')"

definition recognized_event :: "event \<Rightarrow> bool" where
  "recognized_event ev =
     (case ev of
        Notification utcnow notify_data \<Rightarrow> recognized (dict_get notify_data ''trade_status'')
      | QueryResult utcnow mid query_response \<Rightarrow> True)"

section \<open>The service class DMoneyService\<close>

record Response =
  status_code :: int
  text' :: string
  json :: "pyval option"

record DMoneyService =
  merchant :: Merchant
  base_url :: "string option"
  checkout_base_url :: "string option"

text \<open>
  \<^verbatim>\<open>
  def generate_token(self):
      ...
      response = requests.post(url, json=payload, headers=headers, verify=False)
      if response.status_code != 200:
          raise Exception(f"Token generation failed: {response.text}")
      data = response.json()
      token = data.get("token", "")
      if token.startswith("Bearer "):
          token = token[7:]
      expiration_str = data.get("expirationDate")
      expires_at = datetime.strptime(expiration_str, "%Y%m%d%H%M%S")
      return token, expires_at
  \<close>
  \<open>post\<close> is the outcome of \<open>requests.post\<close>: an exception or a response, whose
  \<open>json\<close> is \<open>None\<close> when the body does not decode.
\<close>

definition generate_token :: "lib \<Rightarrow> exn + Response \<Rightarrow> exn + string \<times> datetime" where
  "generate_token L post =
     (case post of
        Inl e \<Rightarrow> Inl e
      | Inr response \<Rightarrow>
          if status_code response \<noteq> 200
          then Inl (PyException (''Token generation failed: '' @ text' response))
          else
            (case json response of
               None \<Rightarrow> Inl JSONDecodeError
             | Some (PDict data) \<Rightarrow>
                 (case dict_get_default data ''token'' (PStr []) of
                    PStr token \<Rightarrow>
                      (let token = (if startswith token ''Bearer '' then drop 7 token else token)
                       in case dict_get data ''expirationDate'' of
                            PStr expiration_str \<Rightarrow>
                              (case strptime L expiration_str ''%Y%m%d%H%M%S'' of
                                 None \<Rightarrow> Inl ValueError
                               | Some expires_at \<Rightarrow> Inr (token, expires_at))
                          | _ \<Rightarrow> Inl TypeError)
                  | _ \<Rightarrow> Inl AttributeError)
             | Some _ \<Rightarrow> Inl AttributeError))"

text \<open>
  \<^verbatim>\<open>
  def _sign_request(self, params):
      excluded = {'sign', 'sign_type', 'biz_content'}
      filtered_params = {
          k: str(v) for k, v in params.items()
          if k not in excluded and v is not None and str(v).strip() != ''
      }
      sorted_items = sorted(filtered_params.items())
      raw_request = '&'.join(f"{k}={v}" for k, v in sorted_items)
      private_key = serialization.load_pem_private_key(...)
      signature = private_key.sign(raw_request.encode('utf-8'), padding.PSS(...), hashes.SHA256())
      return base64.b64encode(signature).decode('utf-8')
  \<close>
  \<open>params\<close> is the list of the dict's items, so its keys are distinct. \<open>sorted\<close> orders
  the (key, value) pairs as tuples.
\<close>

definition excluded :: "string set" where
  "excluded = {''sign'', ''sign_type'', ''biz_content''}"

definition filtered_params :: "(string \<times> scalar) list \<Rightarrow> (string \<times> string) list" where
  "filtered_params params =
     [(k, py_str v). (k, v) \<leftarrow> params, k \<notin> excluded \<and> v \<noteq> SNone \<and> strip (py_str v) \<noteq> []]"

definition raw_request :: "(string \<times> scalar) list \<Rightarrow> string" where
  "raw_request params =
     join ''&'' (map (\<lambda>(k, v). k @ ''='' @ v) (sort (filtered_params params)))"

definition sign_request ::
  "lib \<Rightarrow> DMoneyService \<Rightarrow> string \<Rightarrow> (string \<times> scalar) list \<Rightarrow> exn + string"
where
  "sign_request L self salt params =
     (case pss_sign L (dmoney_private_key (merchant self)) salt (raw_request params) of
        Inl e \<Rightarrow> Inl e
      | Inr signature \<Rightarrow> Inr (b64encode L signature))"








text \<open>
  The canonical string in the specification's words: leave out the keys \<open>sign\<close>,
  \<open>sign_type\<close> and \<open>biz_content\<close>, drop every entry whose value is absent or whose
  stringified value is empty, stringify the values, sort the entries by key, join them
  as \<open>key=value\<close> with \<open>&\<close>. \<open>amended_raw_request\<close> is the same with ``empty'' read as
  ``made of whitespace only''.
\<close>

definition spec_raw_request :: "(string \<times> scalar) list \<Rightarrow> string" where
  "spec_raw_request params =
     join ''&'' (map (\<lambda>(k, v). k @ ''='' @ v)
       (sort_key fst
          (map (\<lambda>(k, v). (k, py_str v))
             (filter (\<lambda>(k, v). k \<notin> excluded \<and> v \<noteq> SNone \<and> py_str v \<noteq> []) params))))"

definition amended_raw_request :: "(string \<times> scalar) list \<Rightarrow> string" where
  "amended_raw_request params =
     join ''&'' (map (\<lambda>(k, v). k @ ''='' @ v)
       (sort_key fst
          (map (\<lambda>(k, v). (k, py_str v))
             (filter (\<lambda>(k, v). k \<notin> excluded \<and> v \<noteq> SNone \<and> \<not> list_all isspace (py_str v))
                params))))"

section \<open>A library instance\<close>

text \<open>
  The theorems below are about every \<open>lib\<close>; evaluating the code on a concrete input
  needs one. \<open>sample_lib\<close> reads a text of exactly fourteen digits as
  \<open>datetime.strptime\<close> does under \<open>%Y%m%d%H%M%S\<close> (and no other text), writes JSON with
  Python's default separators (escaping the double quote and the backslash only), renders an
  \<open>HTTPException\<close> as Starlette does (\<open>status: detail\<close>), and signs with a stand-in: the
  signature of a message under a non-empty key is the salt followed by the message,
  an empty key does not load, and \<open>b64encode\<close> is the identity.
\<close>

definition digit_value :: "char \<Rightarrow> nat" where
  "digit_value c = of_char c - 48"

definition int_of_digits :: "string \<Rightarrow> nat" where
  "int_of_digits s = foldl (\<lambda>acc c. 10 * acc + digit_value c) 0 s"

definition days_in_month :: "nat \<Rightarrow> nat \<Rightarrow> nat" where
  "days_in_month y m =
     (if m = 2 then (if y mod 4 = 0 \<and> (y mod 100 \<noteq> 0 \<or> y mod 400 = 0) then 29 else 28)
      else if m = 4 \<or> m = 6 \<or> m = 9 \<or> m = 11 then 30 else 31)"

definition sample_strptime :: "string \<Rightarrow> string \<Rightarrow> datetime option" where
  "sample_strptime s fmt =
     (if fmt = ''%Y%m%d%H%M%S'' \<and> length s = 14 \<and> list_all is_digit s then
        (let t = \<lparr>year = int_of_digits (take 4 s),
                  month = int_of_digits (take 2 (drop 4 s)),
                  day = int_of_digits (take 2 (drop 6 s)),
                  hour = int_of_digits (take 2 (drop 8 s)),
                  minute = int_of_digits (take 2 (drop 10 s)),
                  second = int_of_digits (take 2 (drop 12 s)),
                  microsecond = 0\<rparr>
         in if valid_datetime t \<and> day t \<le> days_in_month (year t) (month t) then Some t
            else None)
      else None)"

definition json_string :: "string \<Rightarrow> string" where
  "json_string s =
     CHR ''\"'' # concat (map (\<lambda>c. if c = CHR ''\"'' \<or> c = CHR 0x5C then [CHR 0x5C, c] else [c]) s)
     @ [CHR ''\"'']"

fun sample_json_dumps :: "pyval \<Rightarrow> string" where
  "sample_json_dumps PNone = ''null''"
| "sample_json_dumps (PBool b) = (if b then ''true'' else ''false'')"
| "sample_json_dumps (PInt i) = str_int i"
| "sample_json_dumps (PStr s) = json_string s"
| "sample_json_dumps (PList xs) = ''['' @ join '', '' (map sample_json_dumps xs) @ '']''"
| "sample_json_dumps (PDict d) =
     ''{'' @ join '', '' (map (\<lambda>kv. json_string (fst kv) @ '': '' @ sample_json_dumps (snd kv)) d)
     @ ''}''"

fun sample_exn_str :: "exn \<Rightarrow> string" where
  "sample_exn_str (HTTPException code (PStr detail)) = str_nat code @ '': '' @ detail"
| "sample_exn_str (HTTPException code v) = str_nat code @ '': '' @ sample_json_dumps v"
| "sample_exn_str (PyException msg) = msg"
| "sample_exn_str (KeyError k) = [CHR 0x27] @ k @ [CHR 0x27]"
| "sample_exn_str e = []"

definition sample_pss_sign :: "string \<Rightarrow> string \<Rightarrow> string \<Rightarrow> exn + string" where
  "sample_pss_sign pem salt msg = (if pem = [] then Inl ValueError else Inr (salt @ msg))"

definition sample_lib :: lib where
  "sample_lib =
     \<lparr>json_dumps = sample_json_dumps, strptime = sample_strptime, exn_str = sample_exn_str,
      pss_sign = sample_pss_sign, b64encode = (\<lambda>s. s)\<rparr>"

text \<open>Sample rows and payloads for the evaluations below.\<close>

definition sample_time :: datetime where
  "sample_time =
     \<lparr>year = 2024, month = 11, day = 3, hour = 14, minute = 41, second = 7, microsecond = 0\<rparr>"

definition sample_random :: "nat \<Rightarrow> 8 word" where
  "sample_random i =
     (if i = 0 then 0xDE else if i = 1 then 0xAD else if i = 2 then 0xBE
      else if i = 3 then 0xEF else of_nat i)"

definition sample_order :: Order where
  "sample_order =
     \<lparr>id' = 1, merchant_id = 7, merch_order_id = ''ORD20241103144107DEADBEEF'',
      product_name = ''Widget'', quantity = 1, total_amount = 0x408F400000000000,
      currency = ''DJF'', status = PROCESSING, prepay_id = Some ''PP123'',
      payment_order_id = PNone, checkout_url = Some ''https://pay.example/checkout'',
      customer_name = ''Ada'', customer_email = ''ada@example.com'', customer_phone = None,
      created_at = sample_time, updated_at = sample_time, trans_end_time = None,
      callback_info = None, gateway_response = None\<rparr>"

definition sample_notify :: NotifyRequest where
  "sample_notify =
     \<lparr>appid = ''APP1'', merch_code = ''M100'',
      NotifyRequest.merch_order_id = ''ORD20241103144107DEADBEEF'',
      notify_time = ''1730644920'', NotifyRequest.notify_url = ''https://shop.example/notify'',
      NotifyRequest.payment_order_id = ''PAY42'', NotifyRequest.total_amount = ''1000'',
      trans_currency = ''DJF'', trade_status = ''Completed'',
      NotifyRequest.trans_end_time = ''20241103144200'', NotifyRequest.callback_info = None,
      sign = ''c2ln'', sign_type = ''SHA256WithRSA''\<rparr>"

definition sample_notified :: Order where
  "sample_notified =
     sample_order
       \<lparr>status := COMPLETED, payment_order_id := PStr ''PAY42'',
        callback_info := Some (sample_json_dumps (PDict (NotifyRequest_dict sample_notify))),
        trans_end_time := Some \<lparr>year = 2024, month = 11, day = 3, hour = 14, minute = 42,
          second = 0, microsecond = 0\<rparr>,
        updated_at := sample_time\<rparr>"

definition sample_preorder :: PreorderRequest where
  "sample_preorder =
     \<lparr>PreorderRequest.merchant_id = 7, PreorderRequest.product_name = ''Gadget'',
      PreorderRequest.quantity = 2, PreorderRequest.total_amount = 0x4069000000000000,
      PreorderRequest.currency = ''DJF'', PreorderRequest.customer_name = ''Bob'',
      PreorderRequest.customer_email = ''bob@example.com'',
      PreorderRequest.customer_phone = Some ''77123456'', timeout_express = Some ''120m''\<rparr>"

definition sample_created :: Order where
  "sample_created =
     \<lparr>id' = 2, merchant_id = 7, merch_order_id = ''ORD20241103144107DEADBEEE'',
      product_name = ''Gadget'', quantity = 2, total_amount = 0x4069000000000000,
      currency = ''DJF'', status = PENDING, prepay_id = None, payment_order_id = PNone,
      checkout_url = None, customer_name = ''Bob'', customer_email = ''bob@example.com'',
      customer_phone = Some ''77123456'', created_at = sample_time, updated_at = sample_time,
      trans_end_time = None, callback_info = None, gateway_response = None\<rparr>"

definition sample_query_response :: pyval where
  "sample_query_response =
     PDict [(''code'', PStr ''0''), (''result'', PStr ''SUCCESS''), (''msg'', PStr ''success''),
            (''biz_content'',
             PDict [(''merch_order_id'', PStr ''ORD20241103144107DEADBEEF''),
                    (''order_status'', PStr ''Completed''),
                    (''payment_order_id'', PStr ''PAY42'')])]"

definition sample_query_failure :: pyval where
  "sample_query_failure =
     PDict [(''code'', PStr ''1''), (''result'', PStr ''FAIL''), (''msg'', PStr ''order not exist'')]"

definition sample_merchant :: Merchant where
  "sample_merchant =
     \<lparr>Merchant.id' = 7, name = ''Shop'', email = ''shop@example.com'', dmoney_app_key = ''key'',
      dmoney_app_secret = ''secret'', dmoney_app_id = ''APP1'', dmoney_merch_code = ''M100'',
      dmoney_private_key = ''PEM'', dmoney_public_key = None,
      Merchant.notify_url = ''https://shop.example/notify'',
      redirect_url = ''https://shop.example/done'', cached_token = None,
      token_expires_at = None, is_active = True, Merchant.created_at = sample_time,
      Merchant.updated_at = sample_time\<rparr>"

definition sample_service :: DMoneyService where
  "sample_service =
     \<lparr>merchant = sample_merchant, base_url = Some ''https://api.example'',
      checkout_base_url = Some ''https://pay.example''\<rparr>"

section \<open>Order identifiers\<close>

lemma digit_code: "n < 10 \<Longrightarrow> (of_char (digit n) :: nat) = 48 + n"
  by (simp add: digit_def)

lemma digit_less_iff: "n < 10 \<Longrightarrow> m < 10 \<Longrightarrow> (digit n < digit m) = (n < m)"
  by (simp add: less_char_def digit_code)

lemma digit_eq_iff: "(digit n = digit m) = (n = m)" if "n < 10" "m < 10"
proof
  assume "digit n = digit m"
  then have "(of_char (digit n) :: nat) = of_char (digit m)" by (rule arg_cong)
  then show "n = m" using that by (simp only: digit_code add_left_cancel)
qed (rule arg_cong)

lemma lex10:
  "ra < 10 \<Longrightarrow> rb < 10 \<Longrightarrow>
    (qa < qb \<or> qa = qb \<and> ra < rb) = (10 * qa + ra < 10 * qb + (rb::nat))"
  by arith

lemma lex100:
  "ra < 100 \<Longrightarrow> rb < 100 \<Longrightarrow>
    (qa < qb \<or> qa = qb \<and> ra < rb) = (100 * qa + ra < 100 * qb + (rb::nat))"
  by arith

lemma less_by_tens:
  "(a div 10 < b div 10 \<or> a div 10 = b div 10 \<and> a mod 10 < b mod 10) = ((a::nat) < b)"
proof -
  have "(a div 10 < b div 10 \<or> a div 10 = b div 10 \<and> a mod 10 < b mod 10)
      = (10 * (a div 10) + a mod 10 < 10 * (b div 10) + b mod 10)"
    by (rule lex10) simp_all
  then show ?thesis by (simp only: mult_div_mod_eq)
qed

lemma less_by_hundreds:
  "(a div 100 < b div 100 \<or> a div 100 = b div 100 \<and> a mod 100 < b mod 100) = ((a::nat) < b)"
proof -
  have "(a div 100 < b div 100 \<or> a div 100 = b div 100 \<and> a mod 100 < b mod 100)
      = (100 * (a div 100) + a mod 100 < 100 * (b div 100) + b mod 100)"
    by (rule lex100) simp_all
  then show ?thesis by (simp only: mult_div_mod_eq)
qed

lemma eq_by_tens: "(a div 10 = b div 10 \<and> a mod 10 = b mod 10) = ((a::nat) = b)"
  by (metis div_mult_mod_eq)

lemma eq_by_hundreds: "(a div 100 = b div 100 \<and> a mod 100 = b mod 100) = ((a::nat) = b)"
  by (metis div_mult_mod_eq)

lemma two_digits_eq_iff:
  assumes "a < 100" "b < 100"
  shows "(two_digits a = two_digits b) = (a = b)"
proof -
  have "a div 10 < 10" "b div 10 < 10" using assms by simp_all
  then have "(two_digits a = two_digits b) = (a div 10 = b div 10 \<and> a mod 10 = b mod 10)"
    by (simp add: two_digits_def digit_eq_iff)
  then show ?thesis by (simp only: eq_by_tens)
qed

lemma two_digits_less_iff:
  assumes "a < 100" "b < 100"
  shows "(two_digits a < two_digits b) = (a < b)"
proof -
  have "a div 10 < 10" "b div 10 < 10" using assms by simp_all
  then have "(two_digits a < two_digits b)
      = (a div 10 < b div 10 \<or> a div 10 = b div 10 \<and> a mod 10 < b mod 10)"
    by (simp add: two_digits_def digit_eq_iff digit_less_iff)
  then show ?thesis by (simp only: less_by_tens)
qed

lemma length_two_digits: "length (two_digits n) = 2"
  by (simp add: two_digits_def)

lemma append_less_iff:
  "length a = length b \<Longrightarrow> (a @ x < b @ y) = (a < b \<or> a = b \<and> x < (y :: 'a :: linorder list))"
  by (induction a b rule: list_induct2) auto

lemma append_le_iff:
  "length a = length b \<Longrightarrow> (a @ x \<le> b @ y) = (a < b \<or> a = b \<and> x \<le> (y :: 'a :: linorder list))"
  by (induction a b rule: list_induct2) auto

lemma four_digits_eq_iff:
  assumes "a < 10000" "b < 10000"
  shows "(four_digits a = four_digits b) = (a = b)"
proof -
  have "a div 100 < 100" "b div 100 < 100" using assms by simp_all
  then have "(four_digits a = four_digits b) = (a div 100 = b div 100 \<and> a mod 100 = b mod 100)"
    by (simp add: four_digits_def length_two_digits two_digits_eq_iff)
  then show ?thesis by (simp only: eq_by_hundreds)
qed

lemma four_digits_less_iff:
  assumes "a < 10000" "b < 10000"
  shows "(four_digits a < four_digits b) = (a < b)"
proof -
  have "a div 100 < 100" "b div 100 < 100" using assms by simp_all
  then have "(four_digits a < four_digits b)
      = (a div 100 < b div 100 \<or> a div 100 = b div 100 \<and> a mod 100 < b mod 100)"
    by (simp add: four_digits_def append_less_iff length_two_digits two_digits_eq_iff
        two_digits_less_iff)
  then show ?thesis by (simp only: less_by_hundreds)
qed

lemma length_four_digits: "length (four_digits n) = 4"
  by (simp add: four_digits_def length_two_digits)

lemma str_nat_below_ten: "n < 10 \<Longrightarrow> str_nat n = [digit n]"
  by (simp add: str_nat.simps)

lemma str_nat_from_ten: "10 \<le> n \<Longrightarrow> str_nat n = str_nat (n div 10) @ [digit (n mod 10)]"
  by (subst str_nat.simps) simp

lemma mod_hundred_tens: "(n::nat) mod 100 div 10 = n div 10 mod 10"
proof -
  have "n mod (10 * 10) = 10 * (n div 10 mod 10) + n mod 10"
    by (rule mod_mult2_eq)
  then have "n mod 100 div 10 = (n mod 10 + (n div 10 mod 10) * 10) div 10"
    by (simp add: ac_simps)
  then show ?thesis by simp
qed

lemma str_nat_four_digits:
  assumes "1000 \<le> n" "n < 10000"
  shows "str_nat n = four_digits n"
proof -
  have a: "10 \<le> n" "10 \<le> n div 10" "10 \<le> n div 100" "n div 1000 < 10"
    using assms by simp_all
  have "str_nat n = str_nat (n div 10) @ [digit (n mod 10)]"
    using a(1) by (rule str_nat_from_ten)
  also have "str_nat (n div 10) = str_nat (n div 100) @ [digit (n div 10 mod 10)]"
    using str_nat_from_ten [OF a(2)] by (simp add: div_mult2_eq [symmetric])
  also have "str_nat (n div 100) = str_nat (n div 1000) @ [digit (n div 100 mod 10)]"
    using str_nat_from_ten [OF a(3)] by (simp add: div_mult2_eq [symmetric])
  also have "str_nat (n div 1000) = [digit (n div 1000)]"
    using a(4) by (rule str_nat_below_ten)
  finally have "str_nat n
      = [digit (n div 1000), digit (n div 100 mod 10), digit (n div 10 mod 10), digit (n mod 10)]"
    by simp
  moreover have "four_digits n
      = [digit (n div 1000), digit (n div 100 mod 10), digit (n div 10 mod 10), digit (n mod 10)]"
    using a(4) by (simp add: four_digits_def two_digits_def mod_hundred_tens mod_mod_cancel
        div_mult2_eq [symmetric])
  ultimately show ?thesis by simp
qed

lemma strftime_four_digits:
  assumes "valid_datetime t" "1000 \<le> year t"
  shows "strftime t =
     four_digits (year t) @ two_digits (month t) @ two_digits (day t)
     @ two_digits (hour t) @ two_digits (minute t) @ two_digits (second t)"
proof -
  have "year t < 10000" using assms(1) by (simp add: valid_datetime_def)
  with assms(2) show ?thesis by (simp add: strftime_def str_nat_four_digits)
qed

lemma length_strftime: "valid_datetime t \<Longrightarrow> 1000 \<le> year t \<Longrightarrow> length (strftime t) = 14"
  by (simp add: strftime_four_digits length_four_digits length_two_digits)

lemma two_digits_le_iff:
  assumes "a < 100" "b < 100"
  shows "(two_digits a \<le> two_digits b) = (a \<le> b)"
  by (simp only: le_less two_digits_less_iff [OF assms] two_digits_eq_iff [OF assms])

lemma strftime_le_iff:
  assumes "valid_datetime s" "valid_datetime t" "1000 \<le> year s" "1000 \<le> year t"
  shows "(strftime s \<le> strftime t) = (datetime_tuple s \<le> datetime_tuple t)"
proof -
  have b: "year s < 10000" "year t < 10000" "month s < 100" "month t < 100"
    "day s < 100" "day t < 100" "hour s < 100" "hour t < 100"
    "minute s < 100" "minute t < 100" "second s < 100" "second t < 100"
    using assms by (simp_all add: valid_datetime_def)
  have "(strftime s \<le> strftime t) =
    (year s < year t \<or> year s = year t \<and>
      (month s < month t \<or> month s = month t \<and>
        (day s < day t \<or> day s = day t \<and>
          (hour s < hour t \<or> hour s = hour t \<and>
            (minute s < minute t \<or> minute s = minute t \<and> second s \<le> second t)))))"
    using assms
    by (simp add: strftime_four_digits append_le_iff length_four_digits length_two_digits
        four_digits_eq_iff four_digits_less_iff two_digits_eq_iff two_digits_less_iff
        two_digits_le_iff b)
  also have "\<dots> = (datetime_tuple s \<le> datetime_tuple t)"
    unfolding datetime_tuple_def less_eq_prod_simp less_prod_simp by auto
  finally show ?thesis .
qed

lemma upper_hexdigit_code:
  assumes "n < 16"
  shows "(of_char (upper_char (hexdigit n)) :: nat) = (if n < 10 then 48 + n else 55 + n)"
  using assms by (simp add: hexdigit_def upper_char_def Let_def)

lemma upper_hexdigit_inj:
  assumes "n < 16" "m < 16" "upper_char (hexdigit n) = upper_char (hexdigit m)"
  shows "n = m"
proof -
  have "(of_char (upper_char (hexdigit n)) :: nat) = of_char (upper_char (hexdigit m))"
    using assms(3) by (rule arg_cong)
  then show ?thesis
    using assms(1,2) by (simp only: upper_hexdigit_code split: if_splits)
qed

lemma upper_hex_byte_inj:
  assumes "upper (hex_byte a) = upper (hex_byte b)"
  shows "a = b"
proof -
  have "unat a < 2 ^ LENGTH(8)" "unat b < 2 ^ LENGTH(8)" by (rule unsigned_less)+
  then have hi: "unat a div 16 < 16" "unat b div 16 < 16" by simp_all
  have lo: "unat a mod 16 < 16" "unat b mod 16 < 16" by simp_all
  from assms have "upper_char (hexdigit (unat a div 16)) = upper_char (hexdigit (unat b div 16))"
    "upper_char (hexdigit (unat a mod 16)) = upper_char (hexdigit (unat b mod 16))"
    by (simp_all add: upper_def hex_byte_def)
  then have "unat a div 16 = unat b div 16" "unat a mod 16 = unat b mod 16"
    using hi lo by (simp_all only: upper_hexdigit_inj)
  then have "unat a = unat b" by (metis div_mult_mod_eq)
  then show ?thesis by (rule unsigned_word_eqI)
qed

lemma length_hex_byte: "length (hex_byte b) = 2"
  by (simp add: hex_byte_def)

lemma hexlify_Cons: "hexlify (b # bs) = hex_byte b @ hexlify bs"
  by (simp add: hexlify_def)

lemma upper_append: "upper (xs @ ys) = upper xs @ upper ys"
  by (simp add: upper_def)

lemma length_upper: "length (upper xs) = length xs"
  by (simp add: upper_def)

lemma length_hexlify: "length (hexlify r) = 2 * length r"
  by (induction r) (simp_all add: hexlify_def length_hex_byte)

lemma upper_hexlify_inj: "upper (hexlify r) = upper (hexlify r') \<Longrightarrow> r = r'"
proof (induction r arbitrary: r')
  case Nil
  then have "length (hexlify r') = 0"
    by (metis length_upper length_hexlify list.size(3) mult_0_right)
  then show ?case by (simp add: length_hexlify)
next
  case (Cons a r)
  show ?case
  proof (cases r')
    case Nil
    with Cons.prems have "length (hexlify (a # r)) = 0"
      by (metis length_upper length_hexlify list.size(3) mult_0_right)
    then show ?thesis by (simp add: length_hexlify)
  next
    case (Cons b r'')
    from Cons.prems
    have "upper (hex_byte a) @ upper (hexlify r) = upper (hex_byte b) @ upper (hexlify r'')"
      by (simp only: Cons hexlify_Cons upper_append)
    then have "upper (hex_byte a) = upper (hex_byte b)"
      "upper (hexlify r) = upper (hexlify r'')"
      by (simp_all add: length_upper length_hex_byte)
    then show ?thesis using Cons.IH upper_hex_byte_inj Cons by simp
  qed
qed


lemma is_digit_digit: "n < 10 \<Longrightarrow> is_digit (digit n)"
  by (simp add: is_digit_def digit_code)

lemma list_all_two_digits: "list_all is_digit (two_digits n)"
  by (simp add: two_digits_def is_digit_digit)

lemma list_all_str_nat: "list_all is_digit (str_nat n)"
proof (induction n rule: str_nat.induct)
  case (1 n)
  show ?case
  proof (cases "n < 10")
    case True
    then show ?thesis by (simp add: str_nat_below_ten is_digit_digit)
  next
    case False
    then have "list_all is_digit (str_nat (n div 10))" by (rule "1.IH")
    with False show ?thesis by (simp add: str_nat_from_ten is_digit_digit)
  qed
qed

lemma list_all_strftime: "list_all is_digit (strftime t)"
  by (simp add: strftime_def list_all_str_nat list_all_two_digits)

lemma is_upper_hex_hexdigit: "n < 16 \<Longrightarrow> is_upper_hex (upper_char (hexdigit n))"
  by (simp add: is_upper_hex_def is_digit_def upper_hexdigit_code)

lemma list_all_hex_byte: "list_all is_upper_hex (upper (hex_byte b))"
proof -
  have "unat b < 2 ^ LENGTH(8)" by (rule unsigned_less)
  then have "unat b div 16 < 16" by simp
  then show ?thesis by (simp add: upper_def hex_byte_def is_upper_hex_hexdigit)
qed

lemma list_all_hexlify: "list_all is_upper_hex (upper (hexlify r))"
  by (induction r)
    (simp_all add: hexlify_Cons upper_append list_all_hex_byte, simp add: hexlify_def upper_def)

lemma length_token_bytes: "length (token_bytes n rnd) = n"
  by (simp add: token_bytes_def)

text \<open>
  C10. An identifier is \<open>ORD\<close>, then the digits of the time it was made at, then eight
  upper-case hexadecimal digits for the four random bytes; two identifiers made from
  different draws of four bytes differ, whatever their times. For clock readings from
  the year 1000 on, the time part has fourteen digits and is ordered as the readings
  are, so it never decreases when the clock does not.
\<close>

theorem generate_merch_order_id_format:
  "generate_merch_order_id t rnd = ''ORD'' @ strftime t @ upper (token_hex 4 rnd)
   \<and> list_all is_digit (strftime t)
   \<and> length (upper (token_hex 4 rnd)) = 8 \<and> list_all is_upper_hex (upper (token_hex 4 rnd))
   \<and> (token_bytes 4 rnd \<noteq> token_bytes 4 rnd'
        \<longrightarrow> generate_merch_order_id t rnd \<noteq> generate_merch_order_id t' rnd')
   \<and> (valid_datetime t \<and> valid_datetime t' \<and> 1000 \<le> year t \<and> 1000 \<le> year t'
        \<longrightarrow> length (strftime t) = 14
          \<and> ((strftime t \<le> strftime t') = (datetime_tuple t \<le> datetime_tuple t')))"
proof -
  have len: "length (upper (token_hex 4 r)) = 8" for r
    by (simp add: length_upper token_hex_def length_hexlify length_token_bytes)
  have "generate_merch_order_id t rnd \<noteq> generate_merch_order_id t' rnd'"
    if "token_bytes 4 rnd \<noteq> token_bytes 4 rnd'"
  proof
    assume "generate_merch_order_id t rnd = generate_merch_order_id t' rnd'"
    then have "strftime t @ upper (token_hex 4 rnd) = strftime t' @ upper (token_hex 4 rnd')"
      by (simp add: generate_merch_order_id_def)
    moreover have "length (upper (token_hex 4 rnd)) = length (upper (token_hex 4 rnd'))"
      by (simp only: len)
    ultimately have "upper (token_hex 4 rnd) = upper (token_hex 4 rnd')"
      by (metis append_eq_append_conv)
    then have "token_bytes 4 rnd = token_bytes 4 rnd'"
      unfolding token_hex_def by (rule upper_hexlify_inj)
    with that show False by simp
  qed
  then show ?thesis
    by (simp add: generate_merch_order_id_def length_strftime list_all_strftime length_upper
        token_hex_def length_hexlify length_token_bytes list_all_hexlify strftime_le_iff)
qed

theorem generate_merch_order_id_format_witness:
  "valid_datetime sample_time \<and> 1000 \<le> year sample_time
   \<and> valid_datetime (sample_time\<lparr>second := 8\<rparr>)
   \<and> generate_merch_order_id sample_time sample_random = ''ORD20241103144107DEADBEEF''
   \<and> strftime sample_time \<le> strftime (sample_time\<lparr>second := 8\<rparr>)
   \<and> token_bytes 4 sample_random \<noteq> token_bytes 4 (sample_random(3 := 0xEE))
   \<and> generate_merch_order_id sample_time sample_random
      \<noteq> generate_merch_order_id (sample_time\<lparr>second := 8\<rparr>) (sample_random(3 := 0xEE))"
proof -
  have 1: "valid_datetime sample_time" "valid_datetime (sample_time\<lparr>second := 8\<rparr>)"
    by (simp_all add: valid_datetime_def sample_time_def)
  have 2: "1000 \<le> year sample_time" "1000 \<le> year (sample_time\<lparr>second := 8\<rparr>)"
    by (simp_all add: sample_time_def)
  have 3: "token_bytes 4 sample_random = [0xDE, 0xAD, 0xBE, 0xEF]"
    "token_bytes 4 (sample_random(3 := 0xEE)) = [0xDE, 0xAD, 0xBE, 0xEE]"
    by (simp_all add: token_bytes_def sample_random_def upt_rec)
  have 4: "generate_merch_order_id sample_time sample_random = ''ORD20241103144107DEADBEEF''"
    by (simp add: generate_merch_order_id_def token_hex_def 3 sample_time_def strftime_def
        str_nat.simps two_digits_def digit_def hexlify_def hex_byte_def hexdigit_def upper_def
        upper_char_def char_of_eq_iff)
  have 5: "datetime_tuple sample_time \<le> datetime_tuple (sample_time\<lparr>second := 8\<rparr>)"
    by (simp add: datetime_tuple_def sample_time_def)
  note format =
    generate_merch_order_id_format [of sample_time sample_random "sample_random(3 := 0xEE)"
      "sample_time\<lparr>second := 8\<rparr>"]
  have 6: "strftime sample_time \<le> strftime (sample_time\<lparr>second := 8\<rparr>)"
    using format 1 2 5 by blast
  have draws: "token_bytes 4 sample_random \<noteq> token_bytes 4 (sample_random(3 := 0xEE))"
    by (simp add: 3)
  have 7: "generate_merch_order_id sample_time sample_random
      \<noteq> generate_merch_order_id (sample_time\<lparr>second := 8\<rparr>) (sample_random(3 := 0xEE))"
    using format draws by blast
  show ?thesis
    using 1 2 4 6 7 draws by simp
qed


section \<open>The orders table\<close>

lemma length_rewrite_first: "length (rewrite_first P y xs) = length xs"
  by (induction xs) simp_all

lemma rewrite_first_None: "find P xs = None \<Longrightarrow> rewrite_first P y xs = xs"
  by (induction xs) (simp_all split: if_splits)

lemma map_rewrite_first:
  "find P xs = Some x \<Longrightarrow> f y = f x \<Longrightarrow> map f (rewrite_first P y xs) = map f xs"
  by (induction xs) (auto split: if_splits)

lemma find_rewrite_first:
  "find P xs = Some x \<Longrightarrow> P y \<Longrightarrow> find P (rewrite_first P y xs) = Some y"
  by (induction xs) (auto split: if_splits)

lemma rewrite_first_twice:
  "P y \<Longrightarrow> rewrite_first P z (rewrite_first P y xs) = rewrite_first P z xs"
  by (induction xs) auto

lemma list_all2_rewrite_first:
  "find P xs = Some x \<Longrightarrow> R x y \<Longrightarrow> (\<And>u. R u u) \<Longrightarrow> list_all2 R xs (rewrite_first P y xs)"
  by (induction xs) (auto split: if_splits simp: list_all2_refl)

lemma find_Some_P: "find P xs = Some x \<Longrightarrow> P x"
  by (induction xs) (auto split: if_splits)


lemma assign_from_notify_cases:
  obtains (TypeError) "status_mapping_get (dict_get nd ''trade_status'') = Inl TypeError"
      "assign_from_notify L utcnow nd order = Inl TypeError"
  | (Assigned) found order' where
      "status_mapping_get (dict_get nd ''trade_status'') = Inr found"
      "assign_from_notify L utcnow nd order = Inr order'"
      "status order' = (case found of None \<Rightarrow> PROCESSING | Some st \<Rightarrow> st)"
      "payment_order_id order' = dict_get nd ''payment_order_id''"
      "callback_info order' = Some (json_dumps L (PDict nd))"
      "trans_end_time order' =
         (case parse_trans_end_time L (dict_get nd ''trans_end_time'') of
            None \<Rightarrow> trans_end_time order | Some t \<Rightarrow> Some t)"
      "updated_at order' = utcnow"
      "merch_order_id order' = merch_order_id order"
      "merchant_id order' = merchant_id order"
      "id' order' = id' order"
proof (cases "status_mapping_get (dict_get nd ''trade_status'')")
  case (Inl e)
  then have "e = TypeError"
    by (cases "dict_get nd ''trade_status''") auto
  with Inl show ?thesis using TypeError by (simp add: assign_from_notify_def)
next
  case (Inr found)
  then obtain order' where o: "assign_from_notify L utcnow nd order = Inr order'"
    by (simp add: assign_from_notify_def Let_def)
  show ?thesis
    by (rule Assigned [OF Inr o])
      (use o Inr in \<open>auto simp: assign_from_notify_def Let_def split: option.splits\<close>)
qed

lemma assign_from_notify_twice:
  assumes "assign_from_notify L t1 nd order = Inr order'"
  shows "assign_from_notify L t2 nd order' = assign_from_notify L t2 nd order"
  using assms
  by (auto simp: assign_from_notify_def Let_def split: sum.splits option.splits
      intro!: Order.equality)

lemma assign_from_notify_isl:
  "isl (assign_from_notify L t nd order) = isl (assign_from_notify L' t' nd order')"
  by (simp add: assign_from_notify_def Let_def split: sum.splits)

lemma map_rewrite_first_cong:
  "f y = f z \<Longrightarrow> map f (rewrite_first P y xs) = map f (rewrite_first P z xs)"
  by (induction xs) simp_all

lemma assign_from_notify_clock:
  assumes "assign_from_notify L t1 nd order = Inr o1" "assign_from_notify L t2 nd order = Inr o2"
  shows "o2\<lparr>updated_at := t0\<rparr> = o1\<lparr>updated_at := t0\<rparr>"
  using assms
  by (auto simp: assign_from_notify_def Let_def split: sum.splits option.splits)

lemma update_order_status_from_notify_cases:
  obtains (NoKey) "map_of nd ''merch_order_id'' = None"
      "update_order_status_from_notify L utcnow db nd = Inl (KeyError ''merch_order_id'')"
  | (NoOrder) v where "map_of nd ''merch_order_id'' = Some v" "get_order_by_merch_id db v = None"
      "update_order_status_from_notify L utcnow db nd = Inr (db, None)"
  | (Unhashable) v order where "map_of nd ''merch_order_id'' = Some v"
      "get_order_by_merch_id db v = Some order"
      "assign_from_notify L utcnow nd order = Inl TypeError"
      "update_order_status_from_notify L utcnow db nd = Inl TypeError"
  | (Updated) v order order' where "map_of nd ''merch_order_id'' = Some v"
      "get_order_by_merch_id db v = Some order"
      "assign_from_notify L utcnow nd order = Inr order'"
      "update_order_status_from_notify L utcnow db nd =
        Inr (rewrite_first (has_merch_order_id v) order' db, Some order')"
proof (cases "map_of nd ''merch_order_id''")
  case None
  then show ?thesis using NoKey by (simp add: update_order_status_from_notify_def)
next
  case (Some v)
  show ?thesis
  proof (cases "get_order_by_merch_id db v")
    case None
    then show ?thesis using NoOrder Some by (simp add: update_order_status_from_notify_def)
  next
    case order: (Some order)
    show ?thesis
    proof (cases rule: assign_from_notify_cases [of nd L utcnow order])
      case TypeError
      then show ?thesis
        using Unhashable [OF Some order]
        by (simp add: update_order_status_from_notify_def Some order)
    next
      case (Assigned found order')
      then show ?thesis
        using Updated [OF Some order]
        by (simp add: update_order_status_from_notify_def Some order)
    qed
  qed
qed

lemma has_merch_order_id_assign:
  assumes "assign_from_notify L t nd order = Inr order'"
  shows "has_merch_order_id v order' = has_merch_order_id v order"
  using assms
  by (cases rule: assign_from_notify_cases [of nd L t order]) (simp_all add: has_merch_order_id_def)

text \<open>
  C3. Delivering a notification a second time changes nothing but \<open>updated_at\<close>: the
  second call returns what a single call at the later time returns on the original
  table, the table has as many rows as before, and rows and returned order are those
  of the first call up to \<open>updated_at\<close> (with the same clock reading, exactly those).
\<close>

theorem update_order_status_from_notify_idempotent:
  assumes "update_order_status_from_notify L t1 db nd = Inr (db1, r1)"
  shows "\<exists>db2 r2. update_order_status_from_notify L t2 db1 nd = Inr (db2, r2)
    \<and> update_order_status_from_notify L t2 db nd = Inr (db2, r2)
    \<and> length db1 = length db \<and> length db2 = length db
    \<and> map (\<lambda>row. row\<lparr>updated_at := t0\<rparr>) db2 = map (\<lambda>row. row\<lparr>updated_at := t0\<rparr>) db1
    \<and> map_option (\<lambda>row. row\<lparr>updated_at := t0\<rparr>) r2 = map_option (\<lambda>row. row\<lparr>updated_at := t0\<rparr>) r1"
proof (cases rule: update_order_status_from_notify_cases [of nd L t1 db])
  case NoKey
  with assms show ?thesis by simp
next
  case (NoOrder v)
  with assms have "db1 = db" "r1 = None" by simp_all
  moreover have "update_order_status_from_notify L t2 db nd = Inr (db, None)"
    using NoOrder by (simp add: update_order_status_from_notify_def)
  ultimately show ?thesis by simp
next
  case (Unhashable v order)
  with assms show ?thesis by simp
next
  case (Updated v order o1)
  let ?P = "has_merch_order_id v"
  from Updated assms have db1: "db1 = rewrite_first ?P o1 db" and r1: "r1 = Some o1" by simp_all
  have P: "?P o1"
    using has_merch_order_id_assign [OF Updated(3)] find_Some_P [of ?P db order] Updated(2)
    by (simp add: get_order_by_merch_id_def)
  have f1: "get_order_by_merch_id db1 v = Some o1"
    using Updated(2) P by (simp add: db1 get_order_by_merch_id_def find_rewrite_first)
  obtain o2 where o2: "assign_from_notify L t2 nd order = Inr o2"
    using assign_from_notify_isl [of L t2 nd order L t1 order] Updated(3)
    by (cases "assign_from_notify L t2 nd order") simp_all
  have o2': "assign_from_notify L t2 nd o1 = Inr o2"
    using assign_from_notify_twice [OF Updated(3)] o2 by simp
  have once: "update_order_status_from_notify L t2 db nd = Inr (rewrite_first ?P o2 db, Some o2)"
    using Updated(1,2) o2 by (simp add: update_order_status_from_notify_def)
  have twice: "update_order_status_from_notify L t2 db1 nd
      = Inr (rewrite_first ?P o2 db, Some o2)"
    using Updated(1) f1 o2' P by (simp add: update_order_status_from_notify_def db1 rewrite_first_twice)
  have eq: "o2\<lparr>updated_at := t0\<rparr> = o1\<lparr>updated_at := t0\<rparr>"
    using Updated(3) o2 by (rule assign_from_notify_clock)
  have "map (\<lambda>row. row\<lparr>updated_at := t0\<rparr>) (rewrite_first ?P o2 db)
      = map (\<lambda>row. row\<lparr>updated_at := t0\<rparr>) (rewrite_first ?P o1 db)"
    using eq by (rule map_rewrite_first_cong)
  with once twice eq show ?thesis
    by (simp add: db1 r1 length_rewrite_first)
qed

lemma sample_notify_applied:
  "update_order_status_from_notify sample_lib sample_time [sample_order]
      (NotifyRequest_dict sample_notify)
    = Inr ([sample_notified], Some sample_notified)"
  by (simp add: update_order_status_from_notify_def assign_from_notify_def NotifyRequest_dict_def
      sample_notify_def sample_order_def sample_notified_def sample_lib_def
      get_order_by_merch_id_def has_merch_order_id_def dict_get_def status_mapping_def
      parse_trans_end_time_def sample_strptime_def is_digit_def int_of_digits_def
      digit_value_def valid_datetime_def days_in_month_def Let_def opt_str_def)

theorem update_order_status_from_notify_idempotent_witness:
  "update_order_status_from_notify sample_lib sample_time [sample_order]
      (NotifyRequest_dict sample_notify)
    = Inr ([sample_notified], Some sample_notified)
   \<and> update_order_status_from_notify sample_lib sample_time [sample_notified]
      (NotifyRequest_dict sample_notify)
    = Inr ([sample_notified], Some sample_notified)"
  using update_order_status_from_notify_idempotent [OF sample_notify_applied, of sample_time]
  by (auto simp: sample_notify_applied)


text \<open>
  C8. When the order exists and the notification is otherwise well formed, the update
  succeeds whatever \<open>trans_end_time\<close> holds: status, payment order id and stored payload
  are written; the end time is the parsed one when the value is a non-empty text that
  parses, and keeps its previous value in every other case.
\<close>

theorem malformed_trans_end_time_is_ignored:
  assumes "map_of nd ''merch_order_id'' = Some v" "get_order_by_merch_id db v = Some order"
    "status_mapping_get (dict_get nd ''trade_status'') = Inr found"
  shows "\<exists>db' order'. update_order_status_from_notify L utcnow db nd = Inr (db', Some order')
    \<and> get_order_by_merch_id db' v = Some order'
    \<and> status order' = (case found of None \<Rightarrow> PROCESSING | Some st \<Rightarrow> st)
    \<and> payment_order_id order' = dict_get nd ''payment_order_id''
    \<and> callback_info order' = Some (json_dumps L (PDict nd))
    \<and> (\<forall>s t. dict_get nd ''trans_end_time'' = PStr s \<and> s \<noteq> []
          \<and> strptime L s ''%Y%m%d%H%M%S'' = Some t \<longrightarrow> trans_end_time order' = Some t)
    \<and> ((\<forall>s. dict_get nd ''trans_end_time'' = PStr s
            \<longrightarrow> s = [] \<or> strptime L s ''%Y%m%d%H%M%S'' = None)
          \<longrightarrow> trans_end_time order' = trans_end_time order)"
proof (cases rule: assign_from_notify_cases [of nd L utcnow order])
  case TypeError
  with assms(3) show ?thesis by simp
next
  case (Assigned found' order')
  let ?P = "has_merch_order_id v"
  from Assigned(1) assms(3) have found: "found' = found" by simp
  have P: "?P order'"
    using has_merch_order_id_assign [OF Assigned(2)] find_Some_P [of ?P db order] assms(2)
    by (simp add: get_order_by_merch_id_def)
  have "update_order_status_from_notify L utcnow db nd
      = Inr (rewrite_first ?P order' db, Some order')"
    using assms(1,2) Assigned(2) by (simp add: update_order_status_from_notify_def)
  moreover have "get_order_by_merch_id (rewrite_first ?P order' db) v = Some order'"
    using assms(2) P by (simp add: get_order_by_merch_id_def find_rewrite_first)
  moreover have "\<forall>s t. dict_get nd ''trans_end_time'' = PStr s \<and> s \<noteq> []
      \<and> strptime L s ''%Y%m%d%H%M%S'' = Some t \<longrightarrow> trans_end_time order' = Some t"
    using Assigned(6) by (simp add: parse_trans_end_time_def)
  moreover have "(\<forall>s. dict_get nd ''trans_end_time'' = PStr s
      \<longrightarrow> s = [] \<or> strptime L s ''%Y%m%d%H%M%S'' = None)
      \<longrightarrow> trans_end_time order' = trans_end_time order"
    using Assigned(6)
    by (cases "dict_get nd ''trans_end_time''") (auto simp: parse_trans_end_time_def)
  ultimately show ?thesis
    using Assigned(3,4,5) found by simp
qed

text \<open>
  C9. Attaching a payment, applying a notification and applying a query result leave
  the merchant reference and the merchant order identifier of every row as they were;
  the identifier is the one generated when the row was created, and creating a row
  alters no other row.
\<close>

theorem identifiers_are_never_reassigned:
  "map (\<lambda>row. (merchant_id row, merch_order_id row))
      (fst (update_order_with_payment L utcnow db mid pid url resp))
    = map (\<lambda>row. (merchant_id row, merch_order_id row)) db
   \<and> (update_order_status_from_notify L utcnow db nd = Inr (db1, r)
        \<longrightarrow> map (\<lambda>row. (merchant_id row, merch_order_id row)) db1
          = map (\<lambda>row. (merchant_id row, merch_order_id row)) db)
   \<and> (apply_query_result utcnow db mid query_response = Inr db2
        \<longrightarrow> map (\<lambda>row. (merchant_id row, merch_order_id row)) db2
          = map (\<lambda>row. (merchant_id row, merch_order_id row)) db)
   \<and> (create_order now rnd utcnow db order_data = Inr (db3, order)
        \<longrightarrow> db3 = db @ [order] \<and> merch_order_id order = generate_merch_order_id now rnd
          \<and> merchant_id order = PreorderRequest.merchant_id order_data)"
proof -
  let ?key = "\<lambda>row. (merchant_id row, merch_order_id row)"
  have a: "map ?key (fst (update_order_with_payment L utcnow db mid pid url resp)) = map ?key db"
    by (cases "get_order_by_merch_id db (PStr mid)")
      (simp_all add: update_order_with_payment_def get_order_by_merch_id_def Let_def
        map_rewrite_first)
  have b: "map ?key db1 = map ?key db"
    if "update_order_status_from_notify L utcnow db nd = Inr (db1, r)"
  proof (cases rule: update_order_status_from_notify_cases [of nd L utcnow db])
    case (Updated v order order')
    have "?key order' = ?key order"
      by (cases rule: assign_from_notify_cases [of nd L utcnow order])
        (use Updated(3) in simp_all)
    moreover have "db1 = rewrite_first (has_merch_order_id v) order' db"
      using that Updated(4) by simp
    moreover have "find (has_merch_order_id v) db = Some order"
      using Updated(2) by (simp add: get_order_by_merch_id_def)
    ultimately show ?thesis
      by (simp only: map_rewrite_first)
  qed (use that in simp_all)
  have c: "map ?key db2 = map ?key db"
    if "apply_query_result utcnow db mid query_response = Inr db2"
    using that
    by (auto simp: apply_query_result_def get_order_by_merch_id_def Let_def map_rewrite_first
        split: pyval.splits if_splits option.splits sum.splits)
  have d: "db3 = db @ [order] \<and> merch_order_id order = generate_merch_order_id now rnd
      \<and> merchant_id order = PreorderRequest.merchant_id order_data"
    if "create_order now rnd utcnow db order_data = Inr (db3, order)"
    using that by (auto simp: create_order_def Let_def split: if_splits)
  from a b c d show ?thesis by blast
qed


lemmas sample_defs =
  NotifyRequest_dict_def sample_notify_def sample_order_def sample_notified_def sample_lib_def
  sample_time_def sample_created_def sample_preorder_def sample_query_response_def
  sample_query_failure_def

lemmas eval_defs =
  update_order_status_from_notify_def assign_from_notify_def
  get_order_by_merch_id_def has_merch_order_id_def dict_get_def dict_get_default_def
  status_mapping_def parse_trans_end_time_def sample_strptime_def is_digit_def
  int_of_digits_def digit_value_def valid_datetime_def days_in_month_def Let_def opt_str_def

theorem malformed_trans_end_time_is_ignored_witness:
  "update_order_status_from_notify sample_lib sample_time [sample_order]
      (NotifyRequest_dict (sample_notify\<lparr>NotifyRequest.trans_end_time := ''not-a-timestamp''\<rparr>))
    = Inr ([sample_order
             \<lparr>status := COMPLETED, payment_order_id := PStr ''PAY42'',
              callback_info := Some (sample_json_dumps (PDict (NotifyRequest_dict
                (sample_notify\<lparr>NotifyRequest.trans_end_time := ''not-a-timestamp''\<rparr>)))),
              updated_at := sample_time\<rparr>],
           Some (sample_order
             \<lparr>status := COMPLETED, payment_order_id := PStr ''PAY42'',
              callback_info := Some (sample_json_dumps (PDict (NotifyRequest_dict
                (sample_notify\<lparr>NotifyRequest.trans_end_time := ''not-a-timestamp''\<rparr>)))),
              updated_at := sample_time\<rparr>))
   \<and> trans_end_time sample_order = None"
proof -
  let ?nd = "NotifyRequest_dict (sample_notify\<lparr>NotifyRequest.trans_end_time := ''not-a-timestamp''\<rparr>)"
  have 1: "map_of ?nd ''merch_order_id'' = Some (PStr ''ORD20241103144107DEADBEEF'')"
    by (simp add: sample_defs)
  have 2: "get_order_by_merch_id [sample_order] (PStr ''ORD20241103144107DEADBEEF'')
      = Some sample_order"
    by (simp add: sample_defs eval_defs)
  have 3: "status_mapping_get (dict_get ?nd ''trade_status'') = Inr (Some COMPLETED)"
    by (simp add: sample_defs eval_defs)
  show ?thesis
    using malformed_trans_end_time_is_ignored [OF 1 2 3, of sample_lib sample_time]
    by (simp add: sample_defs eval_defs)
qed

theorem identifiers_are_never_reassigned_witness:
  "map (\<lambda>row. (merchant_id row, merch_order_id row))
      (fst (update_order_with_payment sample_lib sample_time [sample_order]
        ''ORD20241103144107DEADBEEF'' ''PP124'' ''https://pay.example/c'' (PDict [])))
    = [(7, ''ORD20241103144107DEADBEEF'')]
   \<and> update_order_status_from_notify sample_lib sample_time [sample_order]
        (NotifyRequest_dict sample_notify) = Inr ([sample_notified], Some sample_notified)
   \<and> map (\<lambda>row. (merchant_id row, merch_order_id row)) [sample_notified]
      = [(7, ''ORD20241103144107DEADBEEF'')]
   \<and> apply_query_result sample_time [sample_order] ''ORD20241103144107DEADBEEF''
        sample_query_response
      = Inr [sample_order\<lparr>status := COMPLETED, payment_order_id := PStr ''PAY42'',
               updated_at := sample_time\<rparr>]
   \<and> create_order sample_time (sample_random(3 := 0xEE)) sample_time [sample_order] sample_preorder
      = Inr ([sample_order, sample_created], sample_created)
   \<and> merch_order_id sample_created
      = generate_merch_order_id sample_time (sample_random(3 := 0xEE))"
proof -
  have 1: "update_order_status_from_notify sample_lib sample_time [sample_order]
      (NotifyRequest_dict sample_notify) = Inr ([sample_notified], Some sample_notified)"
    by (simp add: sample_defs eval_defs)
  have 2: "apply_query_result sample_time [sample_order] ''ORD20241103144107DEADBEEF''
      sample_query_response
      = Inr [sample_order\<lparr>status := COMPLETED, payment_order_id := PStr ''PAY42'',
               updated_at := sample_time\<rparr>]"
    by (simp add: apply_query_result_def sample_defs eval_defs)
  have g: "generate_merch_order_id sample_time (sample_random(3 := 0xEE))
      = ''ORD20241103144107DEADBEEE''"
    by (simp add: generate_merch_order_id_def token_hex_def token_bytes_def sample_random_def
        upt_rec sample_time_def strftime_def str_nat.simps two_digits_def digit_def hexlify_def
        hex_byte_def hexdigit_def upper_def upper_char_def char_of_eq_iff)
  have 3: "create_order sample_time (sample_random(3 := 0xEE)) sample_time [sample_order]
      sample_preorder = Inr ([sample_order, sample_created], sample_created)"
    by (simp add: create_order_def g next_id_def) (simp add: sample_defs Let_def)
  show ?thesis
    using identifiers_are_never_reassigned [of sample_lib sample_time "[sample_order]"
        "''ORD20241103144107DEADBEEF''" "''PP124''" "''https://pay.example/c''" "PDict []"
        "NotifyRequest_dict sample_notify" "[sample_notified]" "Some sample_notified"
        sample_query_response
        "[sample_order\<lparr>status := COMPLETED, payment_order_id := PStr ''PAY42'',
               updated_at := sample_time\<rparr>]"
        sample_time "sample_random(3 := 0xEE)" sample_preorder "[sample_order, sample_created]"
        sample_created]
    by (simp add: 1 2 3) (simp add: sample_order_def)
qed


section \<open>Status transitions\<close>

lemma status_mapping_terminal: "map_of status_mapping s = Some st \<Longrightarrow> is_terminal st"
  by (auto simp: status_mapping_def is_terminal_def split: if_splits)

lemma status_mapping_get_terminal: "status_mapping_get v = Inr (Some st) \<Longrightarrow> is_terminal st"
  by (cases v) (simp_all add: status_mapping_terminal)

lemma status_mapping_get_recognized:
  "recognized v = (\<exists>st. status_mapping_get v = Inr (Some st))"
  by (cases v) (auto simp: recognized_def status_mapping_def)

lemma is_terminal_not_PENDING: "is_terminal st \<Longrightarrow> st \<noteq> PENDING"
  by (auto simp: is_terminal_def)

lemma assign_from_notify_status:
  assumes "assign_from_notify L t nd order = Inr order'"
  shows "status order' \<noteq> PENDING"
    "recognized (dict_get nd ''trade_status'') \<Longrightarrow> is_terminal (status order')"
    "\<not> recognized (dict_get nd ''trade_status'') \<Longrightarrow> status order' = PROCESSING"
proof -
  obtain found where f: "status_mapping_get (dict_get nd ''trade_status'') = Inr found"
    and s: "status order' = (case found of None \<Rightarrow> PROCESSING | Some st \<Rightarrow> st)"
    using assms by (cases rule: assign_from_notify_cases [of nd L t order]) simp_all
  show "status order' \<noteq> PENDING"
    using f s status_mapping_get_terminal [of "dict_get nd ''trade_status''"]
    by (cases found) (auto dest: is_terminal_not_PENDING)
  show "is_terminal (status order')" if "recognized (dict_get nd ''trade_status'')"
    using that f s status_mapping_get_terminal [of "dict_get nd ''trade_status''"]
    by (auto simp: status_mapping_get_recognized)
  show "status order' = PROCESSING" if "\<not> recognized (dict_get nd ''trade_status'')"
    using that f s by (cases found) (auto simp: status_mapping_get_recognized)
qed

text \<open>What one reconciliation call does to the table: nothing, or it rewrites the first
  row with the identifier.\<close>

lemma apply_event_cases:
  obtains (Same) "apply_event L db ev = db"
  | (Notified) utcnow nd v order order' where "ev = Notification utcnow nd"
      "find (has_merch_order_id v) db = Some order"
      "assign_from_notify L utcnow nd order = Inr order'"
      "apply_event L db ev = rewrite_first (has_merch_order_id v) order' db"
  | (Queried) utcnow mid q b st order where "ev = QueryResult utcnow mid q"
      "find (has_merch_order_id (PStr mid)) db = Some order" "is_terminal st"
      "apply_event L db ev = rewrite_first (has_merch_order_id (PStr mid))
         (order\<lparr>status := st, payment_order_id := dict_get b ''payment_order_id'',
            updated_at := utcnow\<rparr>) db"
proof (cases ev)
  case (Notification utcnow nd)
  show ?thesis
  proof (cases rule: update_order_status_from_notify_cases [of nd L utcnow db])
    case (Updated v order order')
    then show ?thesis
      using Notified [OF Notification, of v order order']
      by (simp add: apply_event_def Notification get_order_by_merch_id_def)
  qed (use Same Notification in \<open>simp_all add: apply_event_def\<close>)
next
  case (QueryResult utcnow mid q)
  show ?thesis
  proof (cases "apply_event L db ev = db")
    case True
    then show ?thesis by (rule Same)
  next
    case False
    then obtain b order st where "find (has_merch_order_id (PStr mid)) db = Some order"
      "status_mapping_get (dict_get b ''order_status'') = Inr (Some st)"
      "apply_event L db ev = rewrite_first (has_merch_order_id (PStr mid))
         (order\<lparr>status := st, payment_order_id := dict_get b ''payment_order_id'',
            updated_at := utcnow\<rparr>) db"
      by (auto simp: apply_event_def QueryResult apply_query_result_def get_order_by_merch_id_def
          Let_def split: pyval.splits if_splits option.splits sum.splits)
    then show ?thesis
      using Queried [OF QueryResult] status_mapping_get_terminal by blast
  qed
qed

lemma apply_event_pending:
  "list_all2 (\<lambda>row row'. status row' = PENDING \<longrightarrow> row' = row) db (apply_event L db ev)"
proof (cases rule: apply_event_cases [of L db ev])
  case Same
  then show ?thesis by (simp add: list_all2_refl)
next
  case (Notified utcnow nd v order order')
  then show ?thesis
    using assign_from_notify_status(1) [OF Notified(3)]
    by (simp add: list_all2_rewrite_first)
next
  case (Queried utcnow mid q b st order)
  then show ?thesis
    by (simp add: list_all2_rewrite_first is_terminal_not_PENDING)
qed

lemma apply_event_terminal:
  assumes "recognized_event ev"
  shows "list_all2 (\<lambda>row row'. is_terminal (status row) \<longrightarrow> is_terminal (status row')) db
    (apply_event L db ev)"
proof (cases rule: apply_event_cases [of L db ev])
  case Same
  then show ?thesis by (simp add: list_all2_refl)
next
  case (Notified utcnow nd v order order')
  then show ?thesis
    using assign_from_notify_status(2) [OF Notified(3)] assms
    by (simp add: list_all2_rewrite_first recognized_event_def)
next
  case (Queried utcnow mid q b st order)
  then show ?thesis
    by (simp add: list_all2_rewrite_first)
qed

lemma run_events_pending:
  "list_all2 (\<lambda>row row'. status row' = PENDING \<longrightarrow> row' = row) db (run_events L db evs)"
proof (induction evs arbitrary: db)
  case Nil
  then show ?case by (simp add: run_events_def list_all2_refl)
next
  case (Cons ev evs)
  have "list_all2 (\<lambda>row row'. status row' = PENDING \<longrightarrow> row' = row)
      (apply_event L db ev) (run_events L db (ev # evs))"
    using Cons.IH [of "apply_event L db ev"] by (simp add: run_events_def)
  with apply_event_pending [of db L ev] show ?case
    by (rule list_all2_trans [rotated]) simp
qed

lemma run_events_terminal:
  "list_all recognized_event evs \<Longrightarrow>
    list_all2 (\<lambda>row row'. is_terminal (status row) \<longrightarrow> is_terminal (status row')) db
      (run_events L db evs)"
proof (induction evs arbitrary: db)
  case Nil
  then show ?case by (simp add: run_events_def list_all2_refl)
next
  case (Cons ev evs)
  have "list_all2 (\<lambda>row row'. is_terminal (status row) \<longrightarrow> is_terminal (status row'))
      db (apply_event L db ev)"
    using Cons.prems by (simp add: apply_event_terminal)
  moreover have "list_all2 (\<lambda>row row'. is_terminal (status row) \<longrightarrow> is_terminal (status row'))
      (apply_event L db ev) (run_events L db (ev # evs))"
    using Cons.IH [of "apply_event L db ev"] Cons.prems by (simp add: run_events_def)
  ultimately show ?case
    by (rule list_all2_trans [rotated]) simp
qed

text \<open>
  C1, as the code has it. Over every history of notifications and query results: a
  row that is PENDING afterwards was never written (so no status ever returns to
  PENDING); a terminal status stays terminal as long as every notification of the
  history carries one of the four recognized trade-status values. One notification
  writes the terminal status its trade status names and PROCESSING for any other
  trade status, whatever the row's status was.
\<close>

theorem status_never_returns_to_pending:
  "list_all2 (\<lambda>row row'. status row' = PENDING \<longrightarrow> row' = row) db (run_events L db evs)
   \<and> (list_all recognized_event evs \<longrightarrow>
        list_all2 (\<lambda>row row'. is_terminal (status row) \<longrightarrow> is_terminal (status row')) db
          (run_events L db evs))
   \<and> (update_order_status_from_notify L utcnow db nd = Inr (db', Some order') \<longrightarrow>
        (if recognized (dict_get nd ''trade_status'') then is_terminal (status order')
         else status order' = PROCESSING))"
proof -
  have "if recognized (dict_get nd ''trade_status'') then is_terminal (status order')
      else status order' = PROCESSING"
    if "update_order_status_from_notify L utcnow db nd = Inr (db', Some order')"
  proof (cases rule: update_order_status_from_notify_cases [of nd L utcnow db])
    case (Updated v order order'')
    with that have "assign_from_notify L utcnow nd order = Inr order'" by simp
    then show ?thesis
      using assign_from_notify_status(2,3) by simp
  qed (use that in simp_all)
  then show ?thesis
    using run_events_pending run_events_terminal by blast
qed

theorem status_never_returns_to_pending_witness:
  "run_events sample_lib [sample_created, sample_order]
      [QueryResult sample_time ''ORD20241103144107DEADBEEF'' sample_query_failure,
       Notification sample_time (NotifyRequest_dict sample_notify),
       QueryResult sample_time ''ORD20241103144107DEADBEEF'' sample_query_response]
    = [sample_created, sample_notified]
   \<and> status sample_created = PENDING \<and> is_terminal (status sample_notified)
   \<and> update_order_status_from_notify sample_lib sample_time [sample_created, sample_order]
        (NotifyRequest_dict sample_notify)
      = Inr ([sample_created, sample_notified], Some sample_notified)
   \<and> recognized (dict_get (NotifyRequest_dict sample_notify) ''trade_status'')"
proof -
  have 1: "update_order_status_from_notify sample_lib sample_time [sample_created, sample_order]
        (NotifyRequest_dict sample_notify)
      = Inr ([sample_created, sample_notified], Some sample_notified)"
    by (simp add: sample_defs eval_defs)
  have 2: "run_events sample_lib [sample_created, sample_order]
      [QueryResult sample_time ''ORD20241103144107DEADBEEF'' sample_query_failure,
       Notification sample_time (NotifyRequest_dict sample_notify),
       QueryResult sample_time ''ORD20241103144107DEADBEEF'' sample_query_response]
    = [sample_created, sample_notified]"
    by (simp add: run_events_def apply_event_def apply_query_result_def sample_defs eval_defs)
  have 3: "list_all recognized_event
      [QueryResult sample_time ''ORD20241103144107DEADBEEF'' sample_query_failure,
       Notification sample_time (NotifyRequest_dict sample_notify),
       QueryResult sample_time ''ORD20241103144107DEADBEEF'' sample_query_response]"
    by (simp add: recognized_event_def recognized_def sample_defs eval_defs)
  show ?thesis
    using status_never_returns_to_pending [of "[sample_created, sample_order]" sample_lib
        "[QueryResult sample_time ''ORD20241103144107DEADBEEF'' sample_query_failure,
          Notification sample_time (NotifyRequest_dict sample_notify),
          QueryResult sample_time ''ORD20241103144107DEADBEEF'' sample_query_response]"
        sample_time "NotifyRequest_dict sample_notify" "[sample_created, sample_notified]"
        sample_notified]
    by (simp add: 1 2 3) (simp add: sample_defs eval_defs recognized_def is_terminal_def)
qed

theorem status_leaves_terminal_counterexample:
  "status sample_notified = COMPLETED
   \<and> map status (run_events sample_lib [sample_notified]
        [Notification sample_time
           (NotifyRequest_dict (sample_notify\<lparr>trade_status := ''Refunding''\<rparr>))])
      = [PROCESSING]
   \<and> map status (run_events sample_lib [sample_notified]
        [QueryResult sample_time ''ORD20241103144107DEADBEEF''
           (PDict [(''code'', PStr ''0''), (''result'', PStr ''SUCCESS''),
                   (''biz_content'', PDict [(''order_status'', PStr ''Expired'')])])])
      = [EXPIRED]
   \<and> status sample_created = PENDING
   \<and> map status (run_events sample_lib [sample_created]
        [Notification sample_time
           (NotifyRequest_dict (sample_notify
              \<lparr>NotifyRequest.merch_order_id := ''ORD20241103144107DEADBEEE''\<rparr>))])
      = [COMPLETED]"
  by (simp add: run_events_def apply_event_def apply_query_result_def sample_defs eval_defs)


section \<open>The handlers\<close>

text \<open>
  C6. For a notification whose identifier matches no row,
  \<open>update_order_status_from_notify\<close> returns no order and the table is as it was. The
  handler raises its 404 inside the \<open>try\<close>, and its own \<open>except Exception\<close> turns it
  into a 500 that carries the text of the 404.
\<close>

theorem payment_notify_unknown_order:
  assumes "get_order_by_merch_id db (PStr (NotifyRequest.merch_order_id n)) = None"
  shows "update_order_status_from_notify L utcnow db (NotifyRequest_dict n) = Inr (db, None)
    \<and> payment_notify L utcnow db n
      = (Inl (HTTPException 500 (PStr (exn_str L (HTTPException 404 (PStr ''Order not found''))))),
         db)"
proof -
  have "map_of (NotifyRequest_dict n) ''merch_order_id'' = Some (PStr (NotifyRequest.merch_order_id n))"
    by (simp add: NotifyRequest_dict_def)
  then have "update_order_status_from_notify L utcnow db (NotifyRequest_dict n) = Inr (db, None)"
    using assms by (simp add: update_order_status_from_notify_def)
  then show ?thesis
    by (simp add: payment_notify_def except_Exception_def)
qed

theorem payment_notify_unknown_order_witness:
  "get_order_by_merch_id [sample_order] (PStr ''ORD19990101000000FFFFFFFF'') = None
   \<and> payment_notify sample_lib sample_time [sample_order]
        (sample_notify\<lparr>NotifyRequest.merch_order_id := ''ORD19990101000000FFFFFFFF''\<rparr>)
      = (Inl (HTTPException 500 (PStr ''404: Order not found'')), [sample_order])"
proof -
  have 1: "get_order_by_merch_id [sample_order]
      (PStr (NotifyRequest.merch_order_id
        (sample_notify\<lparr>NotifyRequest.merch_order_id := ''ORD19990101000000FFFFFFFF''\<rparr>))) = None"
    by (simp add: sample_defs eval_defs)
  have 2: "exn_str sample_lib (HTTPException 404 (PStr ''Order not found''))
      = ''404: Order not found''"
    by (simp add: sample_lib_def str_nat.simps digit_def char_of_eq_iff)
  show ?thesis
    using payment_notify_unknown_order [OF 1, of sample_lib sample_time] 1
    by (simp add: 2)
qed

text \<open>
  C4. On a response whose \<open>code\<close> is not \<open>"0"\<close> or whose \<open>result\<close> is not \<open>"SUCCESS"\<close> the
  table is left as it was and the caller gets an error: the 400 that carries the
  processor's message, wrapped into a 500 by the handler's \<open>except Exception\<close>. On
  business success the row with the identifier gets the mapped status and the
  response's \<open>payment_order_id\<close> when \<open>order_status\<close> is one of the four recognized
  values, and the table is left as it was in every other case.
\<close>

theorem query_order_reconciliation:
  "(dict_get r ''code'' \<noteq> PStr ''0'' \<or> dict_get r ''result'' \<noteq> PStr ''SUCCESS'' \<longrightarrow>
      query_order L utcnow db mid (PDict r)
        = (Inl (HTTPException 500 (PStr (exn_str L
             (HTTPException 400 (dict_get_default r ''msg'' (PStr ''Query order failed'')))))),
           db))
   \<and> (dict_get r ''code'' = PStr ''0'' \<and> dict_get r ''result'' = PStr ''SUCCESS'' \<longrightarrow>
        snd (query_order L utcnow db mid (PDict r))
          = (case get_order_by_merch_id db (PStr mid) of
               None \<Rightarrow> db
             | Some row \<Rightarrow>
                 (case dict_get_default r ''biz_content'' (PDict []) of
                    PDict b \<Rightarrow>
                      (case dict_get b ''order_status'' of
                         PStr s \<Rightarrow>
                           (case map_of status_mapping s of
                              None \<Rightarrow> db
                            | Some st \<Rightarrow>
                                rewrite_first (has_merch_order_id (PStr mid))
                                  (row\<lparr>status := st,
                                       payment_order_id := dict_get b ''payment_order_id'',
                                       updated_at := utcnow\<rparr>) db)
                       | _ \<Rightarrow> db)
                  | _ \<Rightarrow> db))
        \<and> ((\<forall>b. dict_get_default r ''biz_content'' (PDict []) = PDict b
               \<longrightarrow> \<not> recognized (dict_get b ''order_status''))
             \<longrightarrow> snd (query_order L utcnow db mid (PDict r)) = db))"
proof -
  have fail: "query_order L utcnow db mid (PDict r)
        = (Inl (HTTPException 500 (PStr (exn_str L
             (HTTPException 400 (dict_get_default r ''msg'' (PStr ''Query order failed'')))))),
           db)"
    if "dict_get r ''code'' \<noteq> PStr ''0'' \<or> dict_get r ''result'' \<noteq> PStr ''SUCCESS''"
    using that by (auto simp: query_order_def apply_query_result_def except_Exception_def)
  have unmapped: "map_of status_mapping [] = None"
    by (simp add: status_mapping_def)
  have ok: "snd (query_order L utcnow db mid (PDict r))
          = (case get_order_by_merch_id db (PStr mid) of
               None \<Rightarrow> db
             | Some row \<Rightarrow>
                 (case dict_get_default r ''biz_content'' (PDict []) of
                    PDict b \<Rightarrow>
                      (case dict_get b ''order_status'' of
                         PStr s \<Rightarrow>
                           (case map_of status_mapping s of
                              None \<Rightarrow> db
                            | Some st \<Rightarrow>
                                rewrite_first (has_merch_order_id (PStr mid))
                                  (row\<lparr>status := st,
                                       payment_order_id := dict_get b ''payment_order_id'',
                                       updated_at := utcnow\<rparr>) db)
                       | _ \<Rightarrow> db)
                  | _ \<Rightarrow> db))"
    if "dict_get r ''code'' = PStr ''0''" "dict_get r ''result'' = PStr ''SUCCESS''"
    using that unmapped
    by (auto simp: query_order_def apply_query_result_def except_Exception_def Let_def
        split: option.splits pyval.splits sum.splits)
  have rest: "snd (query_order L utcnow db mid (PDict r)) = db"
    if "dict_get r ''code'' = PStr ''0''" "dict_get r ''result'' = PStr ''SUCCESS''"
      "\<forall>b. dict_get_default r ''biz_content'' (PDict []) = PDict b
         \<longrightarrow> \<not> recognized (dict_get b ''order_status'')"
    using that(3) unfolding ok [OF that(1,2)]
    by (auto simp: status_mapping_get_recognized split: option.splits pyval.splits)
  from fail ok rest show ?thesis by blast
qed

theorem query_order_reconciliation_witness:
  "query_order sample_lib sample_time [sample_order] ''ORD20241103144107DEADBEEF''
      sample_query_failure
    = (Inl (HTTPException 500 (PStr ''400: order not exist'')), [sample_order])
   \<and> query_order sample_lib sample_time [sample_order] ''ORD20241103144107DEADBEEF''
      sample_query_response
    = (Inr (), [sample_order\<lparr>status := COMPLETED, payment_order_id := PStr ''PAY42'',
                 updated_at := sample_time\<rparr>])
   \<and> query_order sample_lib sample_time [sample_order] ''ORD20241103144107DEADBEEF''
      (PDict [(''code'', PStr ''0''), (''result'', PStr ''SUCCESS''),
              (''biz_content'', PDict [(''order_status'', PStr ''Unknown'')])])
    = (Inr (), [sample_order])"
proof -
  have 1: "exn_str sample_lib (HTTPException 400 (PStr ''order not exist''))
      = ''400: order not exist''"
    by (simp add: sample_lib_def str_nat.simps digit_def char_of_eq_iff)
  have 2: "query_order sample_lib sample_time [sample_order] ''ORD20241103144107DEADBEEF''
      sample_query_response
    = (Inr (), [sample_order\<lparr>status := COMPLETED, payment_order_id := PStr ''PAY42'',
                 updated_at := sample_time\<rparr>])"
    by (simp add: query_order_def except_Exception_def apply_query_result_def sample_defs
        eval_defs)
  have 3: "query_order sample_lib sample_time [sample_order] ''ORD20241103144107DEADBEEF''
      (PDict [(''code'', PStr ''0''), (''result'', PStr ''SUCCESS''),
              (''biz_content'', PDict [(''order_status'', PStr ''Unknown'')])])
    = (Inr (), [sample_order])"
    by (simp add: query_order_def except_Exception_def apply_query_result_def sample_defs
        eval_defs)
  have 4: "query_order sample_lib sample_time [sample_order] ''ORD20241103144107DEADBEEF''
      sample_query_failure
    = (Inl (HTTPException 500 (PStr ''400: order not exist'')), [sample_order])"
    using query_order_reconciliation [of "[(''code'', PStr ''1''), (''result'', PStr ''FAIL''),
        (''msg'', PStr ''order not exist'')]" sample_lib sample_time "[sample_order]"
        "''ORD20241103144107DEADBEEF''"]
    by (simp add: 1 sample_query_failure_def dict_get_def dict_get_default_def)
  have 5: "snd (query_order sample_lib sample_time [sample_order] ''ORD20241103144107DEADBEEF''
      sample_query_response)
    = [sample_order\<lparr>status := COMPLETED, payment_order_id := PStr ''PAY42'',
         updated_at := sample_time\<rparr>]"
    using query_order_reconciliation [of "[(''code'', PStr ''0''), (''result'', PStr ''SUCCESS''),
        (''msg'', PStr ''success''),
        (''biz_content'',
         PDict [(''merch_order_id'', PStr ''ORD20241103144107DEADBEEF''),
                (''order_status'', PStr ''Completed''),
                (''payment_order_id'', PStr ''PAY42'')])]" sample_lib sample_time
        "[sample_order]" "''ORD20241103144107DEADBEEF''"]
    by (simp add: 2)
  show ?thesis
    using 4 5 by (simp add: 2 3)
qed


section \<open>Tokens, signatures and the checkout URL\<close>

lemma startswith_drop: "startswith s p \<Longrightarrow> p @ drop (length p) s = s"
  by (metis append_take_drop_id startswith_def)

text \<open>
  C7, as the code has it. \<open>generate_token\<close> returns a token and an expiry exactly when
  the request returned, the status code is 200, the body is a JSON object, its
  \<open>token\<close> is a text or is missing (a missing token counts as the empty text), and
  \<open>expirationDate\<close> is a text that parses under \<open>%Y%m%d%H%M%S\<close>; the token returned is the
  text without its \<open>Bearer \<close> prefix when it has one. In every other case it raises.
\<close>

theorem generate_token_succeeds_iff:
  "(generate_token L post = Inr (token, expires_at)) =
     (\<exists>response data tok s.
        post = Inr response \<and> status_code response = 200 \<and> json response = Some (PDict data)
        \<and> dict_get_default data ''token'' (PStr []) = PStr tok
        \<and> token = (if startswith tok ''Bearer '' then drop 7 tok else tok)
        \<and> dict_get data ''expirationDate'' = PStr s
        \<and> strptime L s ''%Y%m%d%H%M%S'' = Some expires_at)
   \<and> (startswith tok ''Bearer '' \<longrightarrow> ''Bearer '' @ drop 7 tok = tok)"
proof -
  have l: "length ''Bearer '' = 7" by simp
  have "startswith tok ''Bearer '' \<longrightarrow> ''Bearer '' @ drop 7 tok = tok"
    unfolding l [symmetric] by (rule impI) (rule startswith_drop)
  moreover have "(generate_token L post = Inr (token, expires_at)) =
     (\<exists>response data tok s.
        post = Inr response \<and> status_code response = 200 \<and> json response = Some (PDict data)
        \<and> dict_get_default data ''token'' (PStr []) = PStr tok
        \<and> token = (if startswith tok ''Bearer '' then drop 7 tok else tok)
        \<and> dict_get data ''expirationDate'' = PStr s
        \<and> strptime L s ''%Y%m%d%H%M%S'' = Some expires_at)"
    by (auto simp: generate_token_def Let_def split: sum.splits option.splits pyval.splits)
  ultimately show ?thesis by simp
qed

theorem generate_token_succeeds_iff_witness:
  "generate_token sample_lib
      (Inr \<lparr>status_code = 200, text' = ''{...}'',
            json = Some (PDict [(''token'', PStr ''Bearer abc.def''),
                                (''expirationDate'', PStr ''20250101000000'')])\<rparr>)
    = Inr (''abc.def'',
           \<lparr>year = 2025, month = 1, day = 1, hour = 0, minute = 0, second = 0, microsecond = 0\<rparr>)
   \<and> startswith ''Bearer abc.def'' ''Bearer ''"
  using generate_token_succeeds_iff [of sample_lib
      "Inr \<lparr>status_code = 200, text' = ''{...}'',
            json = Some (PDict [(''token'', PStr ''Bearer abc.def''),
                                (''expirationDate'', PStr ''20250101000000'')])\<rparr>"
      "''abc.def''"
      "\<lparr>year = 2025, month = 1, day = 1, hour = 0, minute = 0, second = 0, microsecond = 0\<rparr>"
      "''Bearer abc.def''"]
  by (simp add: generate_token_def startswith_def dict_get_def dict_get_default_def sample_lib_def
      sample_strptime_def is_digit_def int_of_digits_def digit_value_def valid_datetime_def
      days_in_month_def Let_def)

theorem generate_token_counterexample:
  "generate_token sample_lib
      (Inr \<lparr>status_code = 200, text' = ''{...}'',
            json = Some (PDict [(''expirationDate'', PStr ''20250101000000'')])\<rparr>)
    = Inr ([],
           \<lparr>year = 2025, month = 1, day = 1, hour = 0, minute = 0, second = 0, microsecond = 0\<rparr>)
   \<and> generate_token sample_lib
      (Inr \<lparr>status_code = 201, text' = ''Created'',
            json = Some (PDict [(''token'', PStr ''Bearer abc.def''),
                                (''expirationDate'', PStr ''20250101000000'')])\<rparr>)
    = Inl (PyException ''Token generation failed: Created'')
   \<and> generate_token sample_lib
      (Inr \<lparr>status_code = 200, text' = ''{...}'',
            json = Some (PDict [(''token'', PStr ''Bearer abc.def'')])\<rparr>)
    = Inl TypeError"
  by (simp add: generate_token_def startswith_def dict_get_def dict_get_default_def sample_lib_def
      sample_strptime_def is_digit_def int_of_digits_def digit_value_def valid_datetime_def
      days_in_month_def Let_def)


lemma strip_empty_iff: "(strip s = []) = list_all isspace s"
proof -
  define d where "d = dropWhile isspace s"
  have "(strip s = []) = (\<forall>c \<in> set d. isspace c)"
    by (simp add: strip_def d_def [symmetric])
  also have "\<dots> = (d = [])"
  proof (cases d)
    case Nil
    then show ?thesis by simp
  next
    case (Cons c cs)
    then have "\<not> isspace c"
      using hd_dropWhile [of isspace s] by (simp add: d_def)
    with Cons show ?thesis by auto
  qed
  also have "\<dots> = list_all isspace s"
    by (simp add: d_def list_all_iff)
  finally show ?thesis .
qed

lemma filtered_params_filter:
  "filtered_params params =
     map (\<lambda>(k, v). (k, py_str v))
       (filter (\<lambda>(k, v). k \<notin> excluded \<and> v \<noteq> SNone \<and> \<not> list_all isspace (py_str v)) params)"
  by (induction params) (auto simp: filtered_params_def strip_empty_iff)

lemma fst_filtered_params:
  "map fst (filtered_params params) =
     map fst (filter (\<lambda>(k, v). k \<notin> excluded \<and> v \<noteq> SNone \<and> \<not> list_all isspace (py_str v)) params)"
  by (simp add: filtered_params_filter case_prod_unfold comp_def)

lemma distinct_filtered_params:
  "distinct (map fst params) \<Longrightarrow> distinct (map fst (filtered_params params))"
  by (simp add: fst_filtered_params distinct_map_filter)

lemma sorted_by_distinct_keys:
  "sorted (map fst xs) \<Longrightarrow> distinct (map fst xs) \<Longrightarrow> sorted (xs :: (string \<times> string) list)"
proof (induction xs)
  case Nil
  then show ?case by simp
next
  case (Cons x xs)
  have "x \<le> y" if "y \<in> set xs" for y
  proof -
    have "fst x \<le> fst y" "fst x \<noteq> fst y" using Cons.prems that by auto
    then show ?thesis by (simp add: less_eq_prod_def less_le)
  qed
  with Cons show ?case by simp
qed

lemma sort_distinct_keys:
  assumes "distinct (map fst xs)"
  shows "sort xs = sort_key fst (xs :: (string \<times> string) list)"
proof (rule sorted_distinct_set_unique)
  have d: "distinct xs" using assms by (simp add: distinct_map)
  show "sorted (sort xs)" "distinct (sort xs)" using d by simp_all
  show "distinct (sort_key fst xs)" using d by simp
  show "set (sort xs) = set (sort_key fst xs)" by simp
  have "sorted (map fst (sort_key fst xs))" by (rule sorted_sort_key)
  moreover have "distinct (map fst (sort_key fst xs))"
    using assms by (simp add: distinct_map)
  ultimately show "sorted (sort_key fst xs)" by (rule sorted_by_distinct_keys)
qed

lemma raw_request_amended:
  "distinct (map fst params) \<Longrightarrow> raw_request params = amended_raw_request params"
  using sort_distinct_keys [OF distinct_filtered_params, of params]
  by (simp add: raw_request_def amended_raw_request_def filtered_params_filter)

lemma set_filtered_params:
  "set params' = set params \<Longrightarrow> set (filtered_params params') = set (filtered_params params)"
  by (simp add: filtered_params_filter)

lemma raw_request_listing:
  assumes "distinct (map fst params)" "distinct (map fst params')" "map_of params' = map_of params"
  shows "raw_request params' = raw_request params"
proof -
  have "set params' = set params"
    using assms by (simp add: map_of_inject_set)
  then have s: "set (filtered_params params') = set (filtered_params params)"
    by (rule set_filtered_params)
  have "distinct (filtered_params params)" "distinct (filtered_params params')"
    using distinct_filtered_params [OF assms(1)] distinct_filtered_params [OF assms(2)]
    by (simp_all add: distinct_map)
  then have "sort (filtered_params params') = sort (filtered_params params)"
    using s by (intro sorted_distinct_set_unique) simp_all
  then show ?thesis by (simp add: raw_request_def)
qed

text \<open>
  C2, as the code has it. For a parameter mapping (a list of items with distinct keys)
  the signed string leaves out \<open>sign\<close>, \<open>sign_type\<close> and \<open>biz_content\<close>, drops every entry
  whose value is absent or whose stringified value is empty or made of whitespace only,
  and joins the remaining \<open>key=value\<close> pairs with \<open>&\<close> in ascending order of the keys.
  Two listings of the same mapping give the same string and, with the same key and
  salt, the same signature.
\<close>

theorem raw_request_is_canonical:
  assumes "distinct (map fst params)"
  shows "raw_request params = amended_raw_request params
    \<and> (distinct (map fst params') \<and> map_of params' = map_of params \<longrightarrow>
         raw_request params' = raw_request params
         \<and> sign_request L self salt params' = sign_request L self salt params)"
  using assms raw_request_amended [of params] raw_request_listing [of params params']
  by (auto simp: sign_request_def)

theorem raw_request_is_canonical_witness:
  "distinct (map fst [(''timestamp'', SStr ''1730644927''), (''sign'', SStr ''c2ln''),
      (''appid'', SStr ''APP1''), (''title'', SStr ''  ''), (''note'', SStr []),
      (''phone'', SNone), (''n'', SInt 5)])
   \<and> raw_request [(''timestamp'', SStr ''1730644927''), (''sign'', SStr ''c2ln''),
      (''appid'', SStr ''APP1''), (''title'', SStr ''  ''), (''note'', SStr []),
      (''phone'', SNone), (''n'', SInt 5)]
     = ''appid=APP1&n=5&timestamp=1730644927''
   \<and> raw_request [(''n'', SInt 5), (''phone'', SNone), (''note'', SStr []),
      (''title'', SStr ''  ''), (''appid'', SStr ''APP1''), (''sign'', SStr ''c2ln''),
      (''timestamp'', SStr ''1730644927'')]
     = ''appid=APP1&n=5&timestamp=1730644927''"
proof -
  let ?ps = "[(''timestamp'', SStr ''1730644927''), (''sign'', SStr ''c2ln''),
      (''appid'', SStr ''APP1''), (''title'', SStr ''  ''), (''note'', SStr []),
      (''phone'', SNone), (''n'', SInt 5)]"
  let ?qs = "[(''n'', SInt 5), (''phone'', SNone), (''note'', SStr []),
      (''title'', SStr ''  ''), (''appid'', SStr ''APP1''), (''sign'', SStr ''c2ln''),
      (''timestamp'', SStr ''1730644927'')]"
  have 1: "distinct (map fst ?ps)" by simp
  have 2: "distinct (map fst ?qs)" by simp
  have 3: "map_of ?qs = map_of ?ps"
    using 1 2 by (subst map_of_inject_set) auto
  have 4: "amended_raw_request ?ps = ''appid=APP1&n=5&timestamp=1730644927''"
    by code_simp
  show ?thesis
    using raw_request_is_canonical [OF 1, of ?qs sample_lib sample_service "''salt''"] 2 3
    by (simp add: 4)
qed

theorem raw_request_keeps_no_blank_counterexample:
  "raw_request [(''title'', SStr '' ''), (''appid'', SStr ''APP1'')] = ''appid=APP1''
   \<and> spec_raw_request [(''title'', SStr '' ''), (''appid'', SStr ''APP1'')]
     = ''appid=APP1&title= ''"
  by code_simp










end
